theory Spec2Isabelle
  imports Complex_Main "HOL-Library.Word"
begin

unbundle bit_operations_syntax

section \<open>Values\<close>

text \<open>
  The C types \<open>fval_t\<close> and \<open>double\<close> are modelled by one type of values: an exact real,
  the two infinities, or NaN. Arithmetic on finite values is exact (rounding, overflow to
  infinity and the sign of zero are not modelled); the non-finite cases follow IEEE 754.
  Every theorem below that mentions arithmetic is a statement about this exact arithmetic.
\<close>

datatype fval = Fin real | PInf | MInf | NaN

text \<open>\<open>fp_isfinite\<close> (plot.c, line 47): the exponent field is not all ones.\<close>

fun fp_isfinite :: "fval \<Rightarrow> bool" where
  "fp_isfinite (Fin x) = True"
| "fp_isfinite PInf = False"
| "fp_isfinite MInf = False"
| "fp_isfinite NaN = False"

text \<open>\<open>FP_NAN\<close>, the value of \<open>fp_nan()\<close> (plot.c, line 36).\<close>

definition FP_NAN :: fval where
  "FP_NAN = NaN"

fun fneg :: "fval \<Rightarrow> fval" where
  "fneg (Fin x) = Fin (- x)"
| "fneg PInf = MInf"
| "fneg MInf = PInf"
| "fneg NaN = NaN"

fun fadd :: "fval \<Rightarrow> fval \<Rightarrow> fval" where
  "fadd (Fin x) (Fin y) = Fin (x + y)"
| "fadd NaN b = NaN"
| "fadd a NaN = NaN"
| "fadd PInf MInf = NaN"
| "fadd MInf PInf = NaN"
| "fadd PInf b = PInf"
| "fadd MInf b = MInf"
| "fadd a PInf = PInf"
| "fadd a MInf = MInf"

fun fsign :: "fval \<Rightarrow> int" where
  "fsign (Fin x) = (if x < 0 then - 1 else if x = 0 then 0 else 1)"
| "fsign PInf = 1"
| "fsign MInf = - 1"
| "fsign NaN = 0"

fun fmul :: "fval \<Rightarrow> fval \<Rightarrow> fval" where
  "fmul (Fin x) (Fin y) = Fin (x * y)"
| "fmul NaN b = NaN"
| "fmul a NaN = NaN"
| "fmul a b =
     (if fsign a * fsign b = 0 then NaN else if fsign a * fsign b < 0 then MInf else PInf)"

fun fdiv :: "fval \<Rightarrow> fval \<Rightarrow> fval" where
  "fdiv (Fin x) (Fin y) =
     (if y \<noteq> 0 then Fin (x / y)
      else if x = 0 then NaN else if x < 0 then MInf else PInf)"
| "fdiv NaN b = NaN"
| "fdiv a NaN = NaN"
| "fdiv (Fin x) b = Fin 0"
| "fdiv a (Fin y) = (if fsign a * (if y < 0 then - 1 else 1) < 0 then MInf else PInf)"
| "fdiv a b = NaN"

text \<open>The C comparison \<open>a < b\<close>: false whenever an operand is NaN.\<close>

fun fless :: "fval \<Rightarrow> fval \<Rightarrow> bool" where
  "fless (Fin x) (Fin y) = (x < y)"
| "fless NaN b = False"
| "fless a NaN = False"
| "fless MInf MInf = False"
| "fless MInf b = True"
| "fless a MInf = False"
| "fless PInf b = False"
| "fless a PInf = True"

instantiation fval :: "{plus, minus, uminus, times, inverse, ord}"
begin

definition plus_fval :: "fval \<Rightarrow> fval \<Rightarrow> fval" where
  "plus_fval a b = fadd a b"

definition uminus_fval :: "fval \<Rightarrow> fval" where
  "uminus_fval a = fneg a"

definition minus_fval :: "fval \<Rightarrow> fval \<Rightarrow> fval" where
  "minus_fval a b = fadd a (fneg b)"

definition times_fval :: "fval \<Rightarrow> fval \<Rightarrow> fval" where
  "times_fval a b = fmul a b"

definition divide_fval :: "fval \<Rightarrow> fval \<Rightarrow> fval" where
  "divide_fval a b = fdiv a b"

definition inverse_fval :: "fval \<Rightarrow> fval" where
  "inverse_fval a = fdiv (Fin 1) a"

definition less_fval :: "fval \<Rightarrow> fval \<Rightarrow> bool" where
  "less_fval a b = fless a b"

definition less_eq_fval :: "fval \<Rightarrow> fval \<Rightarrow> bool" where
  "less_eq_fval a b = (fless a b \<or> (a = b \<and> a \<noteq> NaN))"

instance ..

end

text \<open>The conversion of an \<open>int\<close> to a floating-point value.\<close>

definition of_int_fval :: "int \<Rightarrow> fval" where
  "of_int_fval n = Fin (of_int n)"

section \<open>Constants of plot.h\<close>

text \<open>
  The header plot.h is not part of the sources at hand, so the compile-time constants it
  defines are parameters of the model.
\<close>

record plot_h =
  PLOT_DATASET_MAX :: int
  PLOT_CHUNK_SIZE :: int
  PLOT_CHUNK_MAX :: int
  PLOT_CHUNK_CACHE :: int
  PLOT_RCACHE_SIZE :: int
  PLOT_AXES_MAX :: int
  PLOT_FIGURE_MAX :: int
  PLOT_SUBTRACT :: int
  sizeof_fval_t :: int

section \<open>The engine state\<close>

datatype axis_busy = AXIS_FREE | AXIS_BUSY_X | AXIS_BUSY_Y

datatype slave_action = AXIS_SLAVE_DISABLE | AXIS_SLAVE_ENABLE | AXIS_SLAVE_HOLD_AS_IS

record axis_t =
  ax_busy :: axis_busy
  ax_slave :: int
  ax_slave_N :: int
  ax_scale :: fval
  ax_offset :: fval
  ax_lock_scale :: int

record viewport_t =
  min_x :: int
  max_x :: int
  min_y :: int
  max_y :: int


type_synonym addr = nat

text \<open>A chunk buffer: the \<open>fval_t\<close> elements of the block, by element offset.\<close>

type_synonym buffer = "int \<Rightarrow> fval"

record cache_t =
  c_raw :: "addr option"
  c_chunk_N :: int
  c_dirty :: int

text \<open>
  A compressed chunk. The LZ4 codec is an external library; it is modelled as lossless, so
  the compressed block is represented by the contents it was made from.
\<close>

record compress_t =
  z_raw :: "buffer option"
  z_length :: int

text \<open>
  A derived-column slot \<open>sub[sN]\<close>: the tag \<open>busy\<close> together with the member of the union
  \<open>op\<close> that belongs to it. The arguments are, in the order of the C members,
  \<open>time: column_1 unwrap prev prev2\<close>, \<open>scale: column_1 scale offset\<close>,
  \<open>binary: column_1 column_2\<close>, \<open>filter: column_1 arg_1 arg_2 state\<close>,
  \<open>resample: column_X column_in_X column_in_Y in_data_N\<close> and
  \<open>polyfit: column_X column_Y poly_N coefs\<close>.
\<close>

datatype subtract_t =
    SUBTRACT_FREE
  | SUBTRACT_TIME_UNWRAP int fval fval fval
  | SUBTRACT_SCALE int fval fval
  | SUBTRACT_BINARY_SUBTRACTION int int
  | SUBTRACT_BINARY_ADDITION int int
  | SUBTRACT_BINARY_MULTIPLICATION int int
  | SUBTRACT_BINARY_HYPOTENUSE int int
  | SUBTRACT_FILTER_DIFFERENCE int fval fval fval
  | SUBTRACT_FILTER_CUMULATIVE int fval fval fval
  | SUBTRACT_FILTER_BITMASK int fval fval fval
  | SUBTRACT_FILTER_LOW_PASS int fval fval fval
  | SUBTRACT_RESAMPLE int int int int
  | SUBTRACT_POLYFIT int int int "fval list"

record dataset_t =
  column_N :: int
  length_N :: int
  head_N :: int
  tail_N :: int
  id_N :: int
  sub_N :: int
  chunk_SHIFT :: nat
  chunk_MASK :: int
  chunk_bSIZE :: int
  raw :: "int \<Rightarrow> addr option"
  cache :: "int \<Rightarrow> cache_t"
  cache_ID :: int
  compress :: "int \<Rightarrow> compress_t"
  sub :: "int \<Rightarrow> subtract_t"

record rchunk_t =
  ck_computed :: int
  ck_finite :: int
  ck_fmin :: fval
  ck_fmax :: fval

record rcache_t =
  rc_busy :: int
  rc_data_N :: int
  rc_column_N :: int
  rc_cached :: int
  rc_fmin :: fval
  rc_fmax :: fval
  rc_chunk :: "int \<Rightarrow> rchunk_t"

record figure_t =
  fg_busy :: int
  fg_hidden :: int
  fg_data_N :: int
  fg_column_X :: int
  fg_column_Y :: int
  fg_axis_X :: int
  fg_axis_Y :: int

text \<open>
  The engine \<open>plot_t\<close>, restricted to the members the modelled functions use. Pointers to
  chunk buffers are addresses into the store \<open>mem\<close>, so that \<open>raw[kN]\<close> and
  \<open>cache[xN].raw\<close> can name the same buffer. The last fields are not members of the C
  structure: \<open>heap_used\<close> and \<open>heap_fail\<close> describe the allocator (\<open>malloc\<close> fails on its
  \<open>n\<close>-th call exactly when \<open>heap_fail n\<close>), \<open>lz4_size\<close> is the size
  \<open>LZ4_compress_default\<close> returns for a buffer, \<open>errlog\<close> collects the messages of the
  \<open>ERROR\<close> macro, and \<open>wipe_calls\<close> counts the calls of \<open>plotDataRangeCacheWipe\<close>.
\<close>

record plot_t =
  data :: "int \<Rightarrow> dataset_t"
  rcache :: "int \<Rightarrow> rcache_t"
  rcache_ID :: int
  rcache_wipe_data_N :: int
  rcache_wipe_chunk_N :: int
  axis :: "int \<Rightarrow> axis_t"
  figure :: "int \<Rightarrow> figure_t"
  viewport :: viewport_t
  on_X :: int
  on_Y :: int
  lz4_compress :: int
  mem :: "addr \<Rightarrow> buffer"
  heap_used :: nat
  heap_fail :: "nat \<Rightarrow> bool"
  lz4_size :: "buffer \<Rightarrow> int"
  errlog :: "string list"
  wipe_calls :: nat

definition ERROR :: "plot_t \<Rightarrow> string \<Rightarrow> plot_t" where
  "ERROR pl msg = pl\<lparr>errlog := errlog pl @ [msg]\<rparr>"

definition malloc :: "plot_t \<Rightarrow> addr option \<times> plot_t" where
  "malloc pl =
     ((if heap_fail pl (heap_used pl) then None else Some (heap_used pl)),
      pl\<lparr>heap_used := Suc (heap_used pl)\<rparr>)"

definition data_upd :: "plot_t \<Rightarrow> int \<Rightarrow> (dataset_t \<Rightarrow> dataset_t) \<Rightarrow> plot_t" where
  "data_upd pl dN f = pl\<lparr>data := (data pl)(dN := f (data pl dN))\<rparr>"

definition axis_upd :: "plot_t \<Rightarrow> int \<Rightarrow> (axis_t \<Rightarrow> axis_t) \<Rightarrow> plot_t" where
  "axis_upd pl aN f = pl\<lparr>axis := (axis pl)(aN := f (axis pl aN))\<rparr>"

text \<open>The first index \<open>N, N + 1, ...\<close> among \<open>n\<close> that satisfies \<open>P\<close>, or \<open>-1\<close>: a \<open>for\<close>
  loop that leaves with \<open>break\<close> at the first hit.\<close>

fun find_from :: "(int \<Rightarrow> bool) \<Rightarrow> int \<Rightarrow> nat \<Rightarrow> int" where
  "find_from P N 0 = - 1"
| "find_from P N (Suc n) = (if P N then N else find_from P (N + 1) n)"

section \<open>Axes\<close>

text \<open>\<open>plotAxisScaleManual\<close> (plot.c, line 2023).\<close>

definition plotAxisScaleManual :: "plot_h \<Rightarrow> plot_t \<Rightarrow> int \<Rightarrow> fval \<Rightarrow> fval \<Rightarrow> plot_t" where
  "plotAxisScaleManual K pl aN vmin vmax =
     (if aN < 0 \<or> aN \<ge> PLOT_AXES_MAX K then ERROR pl ''Axis number is out of range''
      else if ax_busy (axis pl aN) = AXIS_FREE then pl
      else if ax_slave (axis pl aN) \<noteq> 0 then pl
      else axis_upd pl aN (\<lambda>a. a\<lparr>ax_scale := Fin 1 / (vmax - vmin),
                                   ax_offset := - vmin / (vmax - vmin)\<rparr>))"

text \<open>\<open>plotAxisScaleZoom\<close> (plot.c, line 2205).\<close>

definition plotAxisScaleZoom :: "plot_h \<Rightarrow> plot_t \<Rightarrow> int \<Rightarrow> int \<Rightarrow> fval \<Rightarrow> plot_t" where
  "plotAxisScaleZoom K pl aN origin zoom =
     (if aN < 0 \<or> aN \<ge> PLOT_AXES_MAX K then ERROR pl ''Axis number is out of range''
      else if ax_slave (axis pl aN) \<noteq> 0 then pl
      else
        let vp = viewport pl;
            pl1 =
              (if ax_busy (axis pl aN) = AXIS_BUSY_X then
                 axis_upd pl aN (\<lambda>a. a\<lparr>
                   ax_offset := ax_offset a * zoom
                     + of_int_fval (min_x vp - origin) / of_int_fval (max_x vp - min_x vp)
                       * (zoom - Fin 1),
                   ax_scale := ax_scale a * zoom\<rparr>)
               else if ax_busy (axis pl aN) = AXIS_BUSY_Y then
                 axis_upd pl aN (\<lambda>a. a\<lparr>
                   ax_offset := ax_offset a * zoom
                     + of_int_fval (max_y vp - origin) / of_int_fval (min_y vp - max_y vp)
                       * (zoom - Fin 1),
                   ax_scale := ax_scale a * zoom\<rparr>)
               else pl)
        in axis_upd pl1 aN (\<lambda>a. a\<lparr>ax_lock_scale := 0\<rparr>))"

text \<open>\<open>plotAxisScaleMove\<close> (plot.c, line 2234).\<close>

definition plotAxisScaleMove :: "plot_h \<Rightarrow> plot_t \<Rightarrow> int \<Rightarrow> int \<Rightarrow> plot_t" where
  "plotAxisScaleMove K pl aN move =
     (if aN < 0 \<or> aN \<ge> PLOT_AXES_MAX K then ERROR pl ''Axis number is out of range''
      else if ax_slave (axis pl aN) \<noteq> 0 then pl
      else
        let vp = viewport pl;
            pl1 =
              (if ax_busy (axis pl aN) = AXIS_BUSY_X then
                 axis_upd pl aN (\<lambda>a. a\<lparr>
                   ax_offset := ax_offset a
                     + of_int_fval move / of_int_fval (max_x vp - min_x vp)\<rparr>)
               else if ax_busy (axis pl aN) = AXIS_BUSY_Y then
                 axis_upd pl aN (\<lambda>a. a\<lparr>
                   ax_offset := ax_offset a
                     + of_int_fval move / of_int_fval (min_y vp - max_y vp)\<rparr>)
               else pl)
        in axis_upd pl1 aN (\<lambda>a. a\<lparr>ax_lock_scale := 0\<rparr>))"


text \<open>\<open>plotAxisSlave\<close> (plot.c, line 2504).\<close>

definition plotAxisSlave ::
  "plot_h \<Rightarrow> plot_t \<Rightarrow> int \<Rightarrow> int \<Rightarrow> fval \<Rightarrow> fval \<Rightarrow> slave_action \<Rightarrow> plot_t" where
  "plotAxisSlave K pl aN bN0 scale offset action =
     (if aN < 0 \<or> aN \<ge> PLOT_AXES_MAX K then ERROR pl ''Slave axis number is out of range''
      else
        let bN = (if action = AXIS_SLAVE_DISABLE then ax_slave_N (axis pl aN) else bN0)
        in
          if bN < 0 \<or> bN \<ge> PLOT_AXES_MAX K then ERROR pl ''Base axis number is out of range''
          else if bN = aN then ERROR pl ''Axes must not be the same''
          else if ax_slave (axis pl bN) \<noteq> 0 then ERROR pl ''Base axis must not be slave''
          else if find_from (\<lambda>N. ax_busy (axis pl N) \<noteq> AXIS_FREE
                    \<and> ax_slave (axis pl N) \<noteq> 0 \<and> ax_slave_N (axis pl N) = aN)
                  0 (nat (PLOT_AXES_MAX K)) \<ge> 0
            then ERROR pl ''The axis is base for another slave''
          else if action = AXIS_SLAVE_ENABLE then
            (if ax_slave (axis pl aN) = 0 then
               (axis_upd pl aN (\<lambda>a. a\<lparr>ax_slave := 1, ax_slave_N := bN,
                                        ax_scale := scale, ax_offset := offset\<rparr>))
                 \<lparr>on_X := (if aN = on_X pl then bN else on_X pl),
                  on_Y := (if aN = on_Y pl then bN else on_Y pl)\<rparr>
             else pl)
          else if action = AXIS_SLAVE_HOLD_AS_IS then
            (if ax_slave (axis pl aN) = 0 then
               (axis_upd pl aN (\<lambda>a. a\<lparr>ax_slave := 1, ax_slave_N := bN,
                   ax_scale := ax_scale a / ax_scale (axis pl bN),
                   ax_offset := (ax_offset a - ax_offset (axis pl bN)) / ax_scale (axis pl bN)\<rparr>))
                 \<lparr>on_X := (if aN = on_X pl then bN else on_X pl),
                  on_Y := (if aN = on_Y pl then bN else on_Y pl)\<rparr>
             else pl)
          else
            (if ax_slave (axis pl aN) \<noteq> 0 then
               axis_upd pl aN (\<lambda>a. a\<lparr>ax_slave := 0,
                   ax_scale := ax_scale a * ax_scale (axis pl bN),
                   ax_offset := ax_offset a * ax_scale (axis pl bN) + ax_offset (axis pl bN)\<rparr>)
             else pl))"



section \<open>The chunked column store\<close>

text \<open>\<open>plotDataChunkAlloc\<close> (plot.c, line 203): the loop that allocates the missing
  buffers \<open>raw[N]\<close>, \<open>N < kN\<close>, and stops at the first failure with the length cut to the
  chunks allocated so far.\<close>

fun chunk_alloc_loop :: "plot_t \<Rightarrow> int \<Rightarrow> int \<Rightarrow> int \<Rightarrow> nat \<Rightarrow> plot_t \<times> int" where
  "chunk_alloc_loop pl dN lN N 0 = (pl, lN)"
| "chunk_alloc_loop pl dN lN N (Suc n) =
     (if raw (data pl dN) N = None then
        (case malloc pl of (p, pl1) \<Rightarrow>
           let pl2 = data_upd pl1 dN (\<lambda>d. d\<lparr>raw := (raw d)(N := p)\<rparr>)
           in if p = None then
                (ERROR pl2 ''Unable to allocate memory of %i dataset'',
                 N * 2 ^ chunk_SHIFT (data pl dN))
              else chunk_alloc_loop pl2 dN lN (N + 1) n)
      else chunk_alloc_loop pl dN lN (N + 1) n)"

definition plotDataChunkAlloc :: "plot_h \<Rightarrow> plot_t \<Rightarrow> int \<Rightarrow> int \<Rightarrow> plot_t" where
  "plotDataChunkAlloc K pl dN lN0 =
     (let lSHIFT = chunk_SHIFT (data pl dN);
          kN0 = (if lN0 AND chunk_MASK (data pl dN) \<noteq> 0 then 1 else 0) + drop_bit lSHIFT lN0;
          kN = (if kN0 > PLOT_CHUNK_MAX K then PLOT_CHUNK_MAX K else kN0);
          lN = (if kN0 > PLOT_CHUNK_MAX K then kN * 2 ^ lSHIFT else lN0);
          (pl1, lN1) =
            (if lz4_compress pl \<noteq> 0 then
               (data_upd pl dN (\<lambda>d. d\<lparr>compress := (\<lambda>N.
                   if kN \<le> N \<and> N < PLOT_CHUNK_MAX K then (compress d N)\<lparr>z_raw := None\<rparr>
                   else compress d N)\<rparr>), lN)
             else
               (case chunk_alloc_loop pl dN lN 0 (nat kN) of (pl2, lN2) \<Rightarrow>
                  (data_upd pl2 dN (\<lambda>d. d\<lparr>raw := (\<lambda>N.
                     if kN \<le> N \<and> N < PLOT_CHUNK_MAX K then None else raw d N)\<rparr>), lN2)))
      in data_upd pl1 dN (\<lambda>d. d\<lparr>length_N := lN1\<rparr>))"

text \<open>\<open>plotDataCacheGetNode\<close> (plot.c, line 316): a free cache node, or the next one in
  rotation that does not hold the chunk of \<open>tail_N\<close>.\<close>

definition plotDataCacheGetNode :: "plot_h \<Rightarrow> plot_t \<Rightarrow> int \<Rightarrow> int \<Rightarrow> int \<times> plot_t" where
  "plotDataCacheGetNode K pl dN kN =
     (let d = data pl dN;
          xN = find_from (\<lambda>N. c_raw (cache d N) = None) 0 (nat (PLOT_CHUNK_CACHE K))
      in if xN < 0 then
           let kNOT = drop_bit (chunk_SHIFT d) (tail_N d);
               N = (if cache_ID d < PLOT_CHUNK_CACHE K - 1 then cache_ID d + 1 else 0);
               N = (if c_chunk_N (cache d N) = kNOT
                    then (if N < PLOT_CHUNK_CACHE K - 1 then N + 1 else 0) else N)
           in (N, data_upd pl dN (\<lambda>d. d\<lparr>cache_ID := N\<rparr>))
         else (xN, pl))"

text \<open>
  \<open>plotDataCacheFetch\<close> (plot.c, line 350), in three parts. Compressing into a block that
  could not be allocated is taken to fail, and decompressing into a buffer that could not
  be allocated writes nothing; decompression of a stored block restores its contents.
\<close>

text \<open>Lines 359 to 398: the node \<open>xN\<close> holds the buffer \<open>a\<close> of chunk \<open>kNZ\<close>, which is
  compressed back when dirty and then loses its buffer.\<close>

definition cache_store_back :: "plot_t \<Rightarrow> int \<Rightarrow> int \<Rightarrow> addr \<Rightarrow> plot_t" where
  "cache_store_back pl dN xN a =
     (let kNZ = c_chunk_N (cache (data pl dN) xN);
          pl2 =
            (if c_dirty (cache (data pl dN) xN) \<noteq> 0 then
               (case malloc pl of (z, pl1) \<Rightarrow>
                  let pl1 = (if z = None
                        then ERROR pl1 ''Unable to allocate LZ4 memory of %i dataset''
                        else pl1);
                      lzLEN = (if z = None then 0 else lz4_size pl1 (mem pl1 a))
                  in if lzLEN > 0 then
                       data_upd pl1 dN (\<lambda>d. d\<lparr>compress := (compress d)(kNZ :=
                         \<lparr>z_raw = Some (mem pl1 a), z_length = lzLEN\<rparr>)\<rparr>)
                     else
                       data_upd (ERROR pl1 ''Unable to compress the chunk of %i dataset'')
                         dN (\<lambda>d. d\<lparr>compress := (compress d)(kNZ :=
                         \<lparr>z_raw = None, z_length = 0\<rparr>)\<rparr>))
             else pl)
      in data_upd pl2 dN (\<lambda>d. d\<lparr>raw := (raw d)(kNZ := None)\<rparr>))"

text \<open>Lines 400 to 407: the node \<open>xN\<close> is free and gets a new buffer.\<close>

definition cache_take :: "plot_t \<Rightarrow> int \<Rightarrow> int \<Rightarrow> plot_t" where
  "cache_take pl dN xN =
     (case malloc pl of (p, pl1) \<Rightarrow>
        let pl2 = data_upd pl1 dN (\<lambda>d. d\<lparr>cache := (cache d)(xN :=
                    (cache d xN)\<lparr>c_raw := p\<rparr>)\<rparr>)
        in if p = None then ERROR pl2 ''Unable to allocate cache of %i dataset'' else pl2)"

text \<open>Lines 409 to 426: the node is bound to chunk \<open>kN\<close>, and the chunk is decompressed
  into it when a compressed block exists.\<close>

definition cache_load :: "plot_t \<Rightarrow> int \<Rightarrow> int \<Rightarrow> int \<Rightarrow> plot_t" where
  "cache_load pl3 dN xN kN =
     (let pl4 = data_upd pl3 dN (\<lambda>d. d\<lparr>
                  cache := (cache d)(xN := (cache d xN)\<lparr>c_chunk_N := kN, c_dirty := 0\<rparr>),
                  raw := (raw d)(kN := c_raw (cache d xN))\<rparr>)
      in case z_raw (compress (data pl4 dN) kN) of
           None \<Rightarrow> pl4
         | Some content \<Rightarrow>
             (case raw (data pl4 dN) kN of
                Some a \<Rightarrow> pl4\<lparr>mem := (mem pl4)(a := content)\<rparr>
              | None \<Rightarrow> ERROR pl4 ''Unable to decompress the chunk of %i dataset''))"

definition plotDataCacheFetch :: "plot_h \<Rightarrow> plot_t \<Rightarrow> int \<Rightarrow> int \<Rightarrow> plot_t" where
  "plotDataCacheFetch K pl0 dN kN =
     (case plotDataCacheGetNode K pl0 dN kN of (xN, pl) \<Rightarrow>
        cache_load
          (case c_raw (cache (data pl dN) xN) of
             Some a \<Rightarrow> cache_store_back pl dN xN a
           | None \<Rightarrow> cache_take pl dN xN)
          dN xN kN)"

text \<open>\<open>plotDataChunkFetch\<close> (plot.c, line 429).\<close>

definition plotDataChunkFetch :: "plot_h \<Rightarrow> plot_t \<Rightarrow> int \<Rightarrow> int \<Rightarrow> plot_t" where
  "plotDataChunkFetch K pl dN kN =
     (if raw (data pl dN) kN = None \<and> length_N (data pl dN) \<noteq> 0
      then plotDataCacheFetch K pl dN kN else pl)"

text \<open>\<open>plotDataChunkWrite\<close> (plot.c, line 439).\<close>

definition plotDataChunkWrite :: "plot_h \<Rightarrow> plot_t \<Rightarrow> int \<Rightarrow> int \<Rightarrow> plot_t" where
  "plotDataChunkWrite K pl dN kN =
     (let pl1 = (if raw (data pl dN) kN = None \<and> length_N (data pl dN) \<noteq> 0
                 then plotDataCacheFetch K pl dN kN else pl)
      in if raw (data pl1 dN) kN \<noteq> None then
           let N = find_from (\<lambda>N. c_chunk_N (cache (data pl1 dN) N) = kN)
                     0 (nat (PLOT_CHUNK_CACHE K))
           in if N \<ge> 0 then
                data_upd pl1 dN (\<lambda>d. d\<lparr>cache := (cache d)(N := (cache d N)\<lparr>c_dirty := 1\<rparr>)\<rparr>)
              else pl1
         else pl1)"

text \<open>
  A pointer to a row: the address of its chunk buffer and the offset of its first element,
  \<open>(column_N + PLOT_SUBTRACT) * jN\<close>.
\<close>

type_synonym rowptr = "addr \<times> int"

fun row_get :: "plot_t \<Rightarrow> rowptr \<Rightarrow> int \<Rightarrow> fval" where
  "row_get pl (a, off) c = mem pl a (off + c)"

fun row_set :: "plot_t \<Rightarrow> rowptr \<Rightarrow> int \<Rightarrow> fval \<Rightarrow> plot_t" where
  "row_set pl (a, off) c v = pl\<lparr>mem := (mem pl)(a := (mem pl a)(off + c := v))\<rparr>"

text \<open>\<open>plotDataGet\<close> (plot.c, line 603): the row at \<open>rN\<close>, the cursor advanced, and the
  state (the chunk cache moves when compression is on).\<close>

definition plotDataGet ::
  "plot_h \<Rightarrow> plot_t \<Rightarrow> int \<Rightarrow> int \<Rightarrow> rowptr option \<times> int \<times> plot_t" where
  "plotDataGet K pl dN rN =
     (if rN \<noteq> tail_N (data pl dN) then
        let kN = drop_bit (chunk_SHIFT (data pl dN)) rN;
            jN = rN AND chunk_MASK (data pl dN);
            pl1 = (if lz4_compress pl \<noteq> 0 then plotDataChunkFetch K pl dN kN else pl)
        in case raw (data pl1 dN) kN of
             None \<Rightarrow> (None, rN, pl1)
           | Some a \<Rightarrow>
               (Some (a, (column_N (data pl1 dN) + PLOT_SUBTRACT K) * jN),
                (if rN < length_N (data pl1 dN) - 1 then rN + 1 else 0), pl1)
      else (None, rN, pl))"

text \<open>\<open>plotDataRangeCacheWipe\<close> (plot.c, line 633).\<close>

definition plotDataRangeCacheWipe :: "plot_h \<Rightarrow> plot_t \<Rightarrow> int \<Rightarrow> int \<Rightarrow> plot_t" where
  "plotDataRangeCacheWipe K pl dN kN =
     pl\<lparr>rcache := (\<lambda>N.
           if 0 \<le> N \<and> N < PLOT_RCACHE_SIZE K
              \<and> rc_busy (rcache pl N) \<noteq> 0 \<and> rc_data_N (rcache pl N) = dN
           then (rcache pl N)\<lparr>
                  rc_chunk := (rc_chunk (rcache pl N))(kN :=
                    (rc_chunk (rcache pl N) kN)\<lparr>ck_computed := 0\<rparr>),
                  rc_cached := 0\<rparr>
           else rcache pl N),
        wipe_calls := Suc (wipe_calls pl)\<rparr>"

text \<open>The guarded wipe shared by \<open>plotDataWrite\<close> (lines 665 to 672) and
  \<open>plotDataInsert\<close> (lines 1344 to 1351).\<close>

definition wipe_once :: "plot_h \<Rightarrow> plot_t \<Rightarrow> int \<Rightarrow> int \<Rightarrow> plot_t" where
  "wipe_once K pl dN kN =
     (if rcache_wipe_data_N pl \<noteq> dN \<or> rcache_wipe_chunk_N pl \<noteq> kN then
        (plotDataRangeCacheWipe K pl dN kN)
          \<lparr>rcache_wipe_data_N := dN, rcache_wipe_chunk_N := kN\<rparr>
      else pl)"

text \<open>\<open>plotDataWrite\<close> (plot.c, line 649).\<close>

definition plotDataWrite ::
  "plot_h \<Rightarrow> plot_t \<Rightarrow> int \<Rightarrow> int \<Rightarrow> rowptr option \<times> int \<times> plot_t" where
  "plotDataWrite K pl dN rN =
     (if rN \<noteq> tail_N (data pl dN) then
        let kN = drop_bit (chunk_SHIFT (data pl dN)) rN;
            jN = rN AND chunk_MASK (data pl dN);
            pl1 = (if lz4_compress pl \<noteq> 0 then plotDataChunkWrite K pl dN kN else pl);
            pl2 = wipe_once K pl1 dN kN
        in case raw (data pl2 dN) kN of
             None \<Rightarrow> (None, rN, pl2)
           | Some a \<Rightarrow>
               (Some (a, (column_N (data pl2 dN) + PLOT_SUBTRACT K) * jN),
                (if rN < length_N (data pl2 dN) - 1 then rN + 1 else 0), pl2)
      else (None, rN, pl))"

text \<open>\<open>plotDataSkip\<close> (plot.c, line 688): the new cursor and the new logical id.\<close>

definition plotDataSkip :: "plot_t \<Rightarrow> int \<Rightarrow> int \<Rightarrow> int \<Rightarrow> int \<Rightarrow> int \<times> int" where
  "plotDataSkip pl dN rN idN sk0 =
     (let d = data pl dN;
          lN = length_N d;
          N = rN - head_N d;
          N = (if N < 0 then N + lN else N);
          tN = tail_N d - head_N d;
          tN = (if tN < 0 then tN + lN else tN);
          sk = (if N + sk0 < 0 then - N else sk0);
          sk = (if N + sk > tN then tN - N else sk);
          N = N + sk;
          N = head_N d + N;
          N = (if N > lN - 1 then N - lN else N)
      in (N, idN + sk))"

text \<open>\<open>plotDataChunkN\<close> (plot.c, line 720).\<close>

definition plotDataChunkN :: "plot_t \<Rightarrow> int \<Rightarrow> int \<Rightarrow> int" where
  "plotDataChunkN pl dN rN = drop_bit (chunk_SHIFT (data pl dN)) rN"

text \<open>\<open>plotDataChunkSkip\<close> (plot.c, line 730).\<close>

definition plotDataChunkSkip :: "plot_t \<Rightarrow> int \<Rightarrow> int \<Rightarrow> int \<Rightarrow> int \<times> int" where
  "plotDataChunkSkip pl dN rN idN =
     (let d = data pl dN;
          skip_N = 2 ^ chunk_SHIFT d - (rN AND chunk_MASK d);
          wrap_N = length_N d - rN;
          skip_N = (if wrap_N < skip_N then wrap_N else skip_N)
      in plotDataSkip pl dN rN idN skip_N)"

text \<open>\<open>memcpy(place, row, cN * sizeof(fval_t))\<close>: the first \<open>cN\<close> elements of the row.\<close>

fun memcpy_row :: "plot_t \<Rightarrow> rowptr \<Rightarrow> fval list \<Rightarrow> int \<Rightarrow> plot_t" where
  "memcpy_row pl (a, off) row cN =
     pl\<lparr>mem := (mem pl)(a := (\<lambda>i.
           if off \<le> i \<and> i < off + cN then row ! nat (i - off) else mem pl a i))\<rparr>"

text \<open>The first part of \<open>plotDataInsert\<close> (plot.c, lines 1336 to 1351): the chunk of
  \<open>tail_N\<close> is made writable when compression is on, and the range cache is wiped.\<close>

definition insert_prologue :: "plot_h \<Rightarrow> plot_t \<Rightarrow> int \<Rightarrow> plot_t" where
  "insert_prologue K pl dN =
     (let kN = drop_bit (chunk_SHIFT (data pl dN)) (tail_N (data pl dN));
          pl1 = (if lz4_compress pl \<noteq> 0 then plotDataChunkWrite K pl dN kN else pl)
      in wipe_once K pl1 dN kN)"

text \<open>\<open>plotDataInsert\<close> (plot.c, line 1326). The row is a list of at least \<open>column_N\<close>
  values.\<close>

definition plotDataInsert :: "plot_h \<Rightarrow> plot_t \<Rightarrow> int \<Rightarrow> fval list \<Rightarrow> plot_t" where
  "plotDataInsert K pl dN row =
     (let cN = column_N (data pl dN);
          lN = length_N (data pl dN);
          hN = head_N (data pl dN);
          tN = tail_N (data pl dN);
          kN = drop_bit (chunk_SHIFT (data pl dN)) tN;
          jN = tN AND chunk_MASK (data pl dN);
          pl2 = insert_prologue K pl dN
      in case raw (data pl2 dN) kN of
           None \<Rightarrow> pl2
         | Some a \<Rightarrow>
             let pl3 = memcpy_row pl2 (a, (cN + PLOT_SUBTRACT K) * jN) row cN;
                 tN = (if tN < lN - 1 then tN + 1 else 0);
                 pl4 =
                   (if hN = tN then
                      let hN1 = (if hN < lN - 1 then hN + 1 else 0)
                      in data_upd pl3 dN (\<lambda>d. d\<lparr>id_N := id_N d + 1, head_N := hN1,
                           sub_N := (if sub_N d = tN then hN1 else sub_N d)\<rparr>)
                    else pl3)
             in data_upd pl4 dN (\<lambda>d. d\<lparr>tail_N := tN\<rparr>))"

text \<open>\<open>plotDataAlloc\<close> (plot.c, line 463). The column-to-group map and its allocation
  are not modelled.\<close>

definition plotDataAlloc :: "plot_h \<Rightarrow> plot_t \<Rightarrow> int \<Rightarrow> int \<Rightarrow> int \<Rightarrow> plot_t" where
  "plotDataAlloc K pl dN cN lN =
     (if dN < 0 \<or> dN \<ge> PLOT_DATASET_MAX K then ERROR pl ''Dataset number is out of range''
      else if cN < 1 then ERROR pl ''Number of columns is too few''
      else if lN < 1 then ERROR pl ''Length of dataset is too short''
      else if column_N (data pl dN) \<noteq> 0 then
        (if column_N (data pl dN) \<noteq> cN then ERROR pl ''Number of columns cannot be changed''
         else
           let pl1 = pl\<lparr>rcache := (\<lambda>N.
                       if 0 \<le> N \<and> N < PLOT_RCACHE_SIZE K \<and> rc_data_N (rcache pl N) = dN
                       then (rcache pl N)\<lparr>rc_busy := 0\<rparr> else rcache pl N)\<rparr>;
               pl2 = plotDataChunkAlloc K pl1 dN lN
           in data_upd pl2 dN (\<lambda>d. d\<lparr>head_N := 0, tail_N := 0, id_N := 0, sub_N := 0\<rparr>))
      else
        let N = find_from (\<lambda>N. sizeof_fval_t K * (cN + PLOT_SUBTRACT K) * 2 ^ nat N
                              \<ge> PLOT_CHUNK_SIZE K) 0 30;
            pl1 = data_upd pl dN (\<lambda>d. d\<lparr>column_N := cN\<rparr>);
            pl2 = (if N \<ge> 0 then
                     data_upd pl1 dN (\<lambda>d. d\<lparr>chunk_SHIFT := nat N, chunk_MASK := 2 ^ nat N - 1,
                       chunk_bSIZE := sizeof_fval_t K * (cN + PLOT_SUBTRACT K) * 2 ^ nat N\<rparr>)
                   else pl1);
            pl3 = plotDataChunkAlloc K pl2 dN lN
        in data_upd pl3 dN (\<lambda>d. d\<lparr>cache_ID := 0, head_N := 0, tail_N := 0, id_N := 0,
             sub_N := 0, sub := (\<lambda>N. if 0 \<le> N \<and> N < PLOT_SUBTRACT K then SUBTRACT_FREE
                                      else sub d N)\<rparr>))"

section \<open>The range cache\<close>

text \<open>\<open>plotDataRangeCacheGetNode\<close> (plot.c, line 1429).\<close>

definition plotDataRangeCacheGetNode :: "plot_h \<Rightarrow> plot_t \<Rightarrow> int \<Rightarrow> int \<Rightarrow> int" where
  "plotDataRangeCacheGetNode K pl dN cN =
     find_from (\<lambda>N. rc_busy (rcache pl N) \<noteq> 0 \<and> rc_data_N (rcache pl N) = dN
                  \<and> rc_column_N (rcache pl N) = cN) 0 (nat (PLOT_RCACHE_SIZE K))"

text \<open>
  The loops of \<open>plotDataRangeCacheFetch\<close> run until the cursor meets \<open>tail_N\<close>; they are
  given fuel, and \<open>None\<close> means that the fuel ran out. The inner loop (lines 1537 to 1565)
  scans the rows of chunk \<open>kN\<close> from the cursor on; its result is the state, the cursor,
  the logical id and the running \<open>finite\<close> (here \<open>fin\<close>), \<open>ymin\<close>, \<open>ymax\<close>.
\<close>

fun rcache_scan ::
  "nat \<Rightarrow> plot_h \<Rightarrow> plot_t \<Rightarrow> int \<Rightarrow> int \<Rightarrow> int \<Rightarrow> int \<Rightarrow> int \<Rightarrow> int \<Rightarrow> fval \<Rightarrow> fval
     \<Rightarrow> (plot_t \<times> int \<times> int \<times> int \<times> fval \<times> fval) option" where
  "rcache_scan 0 K pl dN cN kN rN idN fin ymin ymax = None"
| "rcache_scan (Suc fuel) K pl dN cN kN rN idN fin ymin ymax =
     (if kN \<noteq> plotDataChunkN pl dN rN then Some (pl, rN, idN, fin, ymin, ymax)
      else
        case plotDataGet K pl dN rN of
          (None, rN1, pl1) \<Rightarrow> Some (pl1, rN1, idN, fin, ymin, ymax)
        | (Some row, rN1, pl1) \<Rightarrow>
            let fval = (if cN < 0 then of_int_fval idN else row_get pl1 row cN)
            in if fp_isfinite fval then
                 (if fin \<noteq> 0 then
                    rcache_scan fuel K pl1 dN cN kN rN1 (idN + 1) fin
                      (if fval < ymin then fval else ymin)
                      (if fval > ymax then fval else ymax)
                  else rcache_scan fuel K pl1 dN cN kN rN1 (idN + 1) 1 fval fval)
               else rcache_scan fuel K pl1 dN cN kN rN1 (idN + 1) fin ymin ymax)"

definition rchunk_upd :: "plot_t \<Rightarrow> int \<Rightarrow> int \<Rightarrow> (rchunk_t \<Rightarrow> rchunk_t) \<Rightarrow> plot_t" where
  "rchunk_upd pl xN kN f =
     pl\<lparr>rcache := (rcache pl)(xN := (rcache pl xN)\<lparr>
           rc_chunk := (rc_chunk (rcache pl xN))(kN := f (rc_chunk (rcache pl xN) kN))\<rparr>)\<rparr>"

text \<open>The outer loop (lines 1513 to 1601), one chunk per round; its result is the state
  and the aggregate \<open>fmin\<close>, \<open>fmax\<close>. The inner loop gets the fuel \<open>fuel0\<close>.\<close>

fun rcache_chunks ::
  "nat \<Rightarrow> nat \<Rightarrow> plot_h \<Rightarrow> plot_t \<Rightarrow> int \<Rightarrow> int \<Rightarrow> int \<Rightarrow> int \<Rightarrow> int \<Rightarrow> int \<Rightarrow> fval \<Rightarrow> fval
     \<Rightarrow> fval \<Rightarrow> fval \<Rightarrow> int \<Rightarrow> (plot_t \<times> fval \<times> fval) option" where
  "rcache_chunks 0 fuel0 K pl dN cN xN rN idN fin ymin ymax fmin fmax started = None"
| "rcache_chunks (Suc fuel) fuel0 K pl dN cN xN rN idN fin ymin ymax fmin fmax started =
     (let kN = plotDataChunkN pl dN rN;
          ck = rc_chunk (rcache pl xN) kN;
          (job, fin, ymin, ymax) =
            (if ck_computed ck \<noteq> 0 then
               (if kN = plotDataChunkN pl dN (tail_N (data pl dN))
                then (1 :: int, ck_finite ck, ck_fmin ck, ck_fmax ck)
                else (0, fin, ymin, ymax))
             else (1, 0, ymin, ymax))
      in case
           (if job \<noteq> 0 then
              (case rcache_scan fuel0 K pl dN cN kN rN idN fin ymin ymax of
                 None \<Rightarrow> None
               | Some (pl1, rN1, idN1, fin1, ymin1, ymax1) \<Rightarrow>
                   let pl2 = rchunk_upd pl1 xN kN
                               (\<lambda>c. c\<lparr>ck_computed := 1, ck_finite := fin1\<rparr>);
                       pl3 = (if fin1 \<noteq> 0
                              then rchunk_upd pl2 xN kN (\<lambda>c. c\<lparr>ck_fmin := ymin1, ck_fmax := ymax1\<rparr>)
                              else pl2)
                   in Some (pl3, rN1, idN1, fin1, ymin1, ymax1))
            else
              (case plotDataChunkSkip pl dN rN idN of (rN1, idN1) \<Rightarrow>
                 Some (pl, rN1, idN1, fin, ymin, ymax)))
         of
           None \<Rightarrow> None
         | Some (pl3, rN1, idN1, fin1, ymin1, ymax1) \<Rightarrow>
             let ck3 = rc_chunk (rcache pl3 xN) kN;
                 (fmin1, fmax1, started1) =
                   (if ck_finite ck3 \<noteq> 0 then
                      (if started \<noteq> 0 then
                         ((if ck_fmin ck3 < fmin then ck_fmin ck3 else fmin),
                          (if ck_fmax ck3 > fmax then ck_fmax ck3 else fmax), started)
                       else (ck_fmin ck3, ck_fmax ck3, 1))
                    else (fmin, fmax, started))
             in if rN1 = tail_N (data pl3 dN) then Some (pl3, fmin1, fmax1)
                else rcache_chunks fuel fuel0 K pl3 dN cN xN rN1 idN1 fin1 ymin1 ymax1
                       fmin1 fmax1 started1)"

text \<open>
  \<open>plotDataRangeCacheFetch\<close> (plot.c, line 1479): the index of the entry and the state.
  The locals \<open>finite\<close>, \<open>ymin\<close> and \<open>ymax\<close> are not initialised in C; they are read only
  after they have been assigned, and start here as \<open>0\<close> and NaN.
\<close>

definition plotDataRangeCacheFetch ::
  "nat \<Rightarrow> plot_h \<Rightarrow> plot_t \<Rightarrow> int \<Rightarrow> int \<Rightarrow> (int \<times> plot_t) option" where
  "plotDataRangeCacheFetch fuel K pl dN cN =
     (let xN0 = plotDataRangeCacheGetNode K pl dN cN
      in if xN0 \<ge> 0 \<and> rc_cached (rcache pl xN0) \<noteq> 0 then Some (xN0, pl)
         else
           let xN = (if xN0 \<ge> 0 then xN0 else rcache_ID pl);
               pl1 =
                 (if xN0 \<ge> 0 then pl
                  else pl\<lparr>rcache_ID := (if rcache_ID pl < PLOT_RCACHE_SIZE K - 1
                                          then rcache_ID pl + 1 else 0),
                          rcache := (rcache pl)(xN := (rcache pl xN)\<lparr>rc_chunk := (\<lambda>N.
                            if 0 \<le> N \<and> N < PLOT_CHUNK_MAX K
                            then (rc_chunk (rcache pl xN) N)\<lparr>ck_computed := 0\<rparr>
                            else rc_chunk (rcache pl xN) N)\<rparr>)\<rparr>)
           in case rcache_chunks fuel fuel K pl1 dN cN xN (head_N (data pl1 dN))
                     (id_N (data pl1 dN)) 0 NaN NaN (Fin 0) (Fin 0) 0 of
                None \<Rightarrow> None
              | Some (pl2, fmin, fmax) \<Rightarrow>
                  Some (xN, pl2\<lparr>
                    rcache := (rcache pl2)(xN := (rcache pl2 xN)\<lparr>rc_busy := 1,
                      rc_data_N := dN, rc_column_N := cN, rc_cached := 1,
                      rc_fmin := fmin, rc_fmax := fmax\<rparr>),
                    rcache_wipe_data_N := - 1, rcache_wipe_chunk_N := - 1\<rparr>))"

text \<open>
  The rows of a dataset from \<open>head_N\<close> to \<open>tail_N\<close>, read with \<open>plotDataGet\<close> as every
  reader of the store does: for each row its ring index, its logical id and the values of
  its first \<open>column_N\<close> columns.
\<close>

fun rows_from ::
  "nat \<Rightarrow> plot_h \<Rightarrow> plot_t \<Rightarrow> int \<Rightarrow> int \<Rightarrow> int \<Rightarrow> (int \<times> int \<times> fval list) list" where
  "rows_from 0 K pl dN rN idN = []"
| "rows_from (Suc fuel) K pl dN rN idN =
     (case plotDataGet K pl dN rN of
        (None, rN1, pl1) \<Rightarrow> []
      | (Some row, rN1, pl1) \<Rightarrow>
          (rN, idN, map (\<lambda>c. row_get pl1 row (int c)) [0..<nat (column_N (data pl dN))])
            # rows_from fuel K pl1 dN rN1 (idN + 1))"

definition valid_rows :: "plot_h \<Rightarrow> plot_t \<Rightarrow> int \<Rightarrow> (int \<times> int \<times> fval list) list" where
  "valid_rows K pl dN =
     rows_from (nat (length_N (data pl dN))) K pl dN (head_N (data pl dN)) (id_N (data pl dN))"

section \<open>Derived columns\<close>

text \<open>
  One row of the \<open>SUBTRACT_TIME_UNWRAP\<close> loop (plot.c, lines 1011 to 1027): from the running
  \<open>(offset, X_2, X_3)\<close>, that is \<open>(unwrap, prev, prev2)\<close>, and the input \<open>X_1\<close> to the value
  written to the derived column and the new running state.
\<close>

definition time_unwrap_step :: "fval \<times> fval \<times> fval \<Rightarrow> fval \<Rightarrow> fval \<times> (fval \<times> fval \<times> fval)" where
  "time_unwrap_step st X_1 =
     (case st of (offset, X_2, X_3) \<Rightarrow>
        let offset1 =
              (if X_1 < X_2 then
                 (let o1 = offset + (X_2 - X_1)
                  in if X_3 < X_2 then o1 + (X_2 - X_3) else o1)
               else offset)
        in (X_1 + offset1,
            (if fp_isfinite X_1 then (offset1, X_1, X_2) else (offset1, X_2, X_3))))"

text \<open>The state a \<open>SUBTRACT_TIME_UNWRAP\<close> slot starts from when the span begins at
  \<open>head_N\<close> (lines 991 to 996).\<close>

definition time_unwrap_fresh :: "fval \<times> fval \<times> fval" where
  "time_unwrap_fresh = (Fin 0, FP_NAN, FP_NAN)"

text \<open>The row loop of the \<open>SUBTRACT_TIME_UNWRAP\<close> branch (lines 1003 to 1031): every row
  that \<open>plotDataWrite\<close> hands out, until it returns \<open>NULL\<close>.\<close>

fun time_unwrap_rows ::
  "nat \<Rightarrow> plot_h \<Rightarrow> plot_t \<Rightarrow> int \<Rightarrow> int \<Rightarrow> int \<Rightarrow> int \<Rightarrow> int \<Rightarrow> fval \<times> fval \<times> fval
     \<Rightarrow> (plot_t \<times> (fval \<times> fval \<times> fval)) option" where
  "time_unwrap_rows 0 K pl dN cN cN_1 rN idN st = None"
| "time_unwrap_rows (Suc fuel) K pl dN cN cN_1 rN idN st =
     (case plotDataWrite K pl dN rN of
        (None, rN1, pl1) \<Rightarrow> Some (pl1, st)
      | (Some row, rN1, pl1) \<Rightarrow>
          let X_1 = (if cN_1 < 0 then of_int_fval idN else row_get pl1 row cN_1)
          in case time_unwrap_step st X_1 of (y, st1) \<Rightarrow>
               time_unwrap_rows fuel K (row_set pl1 row cN y) dN cN cN_1 rN1 (idN + 1) st1)"

text \<open>The body of the slot loop of \<open>plotDataSubtract\<close> for a \<open>SUBTRACT_TIME_UNWRAP\<close> slot
  (lines 978 to 1036), over the span that starts at \<open>rS\<close>.\<close>

definition subtract_TIME_UNWRAP ::
  "nat \<Rightarrow> plot_h \<Rightarrow> plot_t \<Rightarrow> int \<Rightarrow> int \<Rightarrow> int \<Rightarrow> plot_t option" where
  "subtract_TIME_UNWRAP fuel K pl dN sN rS =
     (case sub (data pl dN) sN of
        SUBTRACT_TIME_UNWRAP cN_1 unwrap prev prev2 \<Rightarrow>
          let d = data pl dN;
              cN = sN + column_N d;
              id_S = rS - head_N d;
              id_S = id_S + (if id_S < 0 then length_N d else 0);
              idN = id_N d + id_S;
              st = (if rS = head_N d then time_unwrap_fresh else (unwrap, prev, prev2))
          in (case time_unwrap_rows fuel K pl dN cN cN_1 rS idN st of
                None \<Rightarrow> None
              | Some (pl1, (offset, X_2, X_3)) \<Rightarrow>
                  Some (data_upd pl1 dN (\<lambda>d. d\<lparr>sub := (sub d)(sN :=
                          SUBTRACT_TIME_UNWRAP cN_1 offset X_2 X_3)\<rparr>)))
      | _ \<Rightarrow> Some pl)"

text \<open>
  The slot loop of \<open>plotDataSubtract\<close> (lines 977 to 1307), \<open>n\<close> slots from \<open>sN\<close> on. Only
  the \<open>SUBTRACT_TIME_UNWRAP\<close> branch is embedded; what the branches of the other operators
  do to the state is the parameter \<open>other\<close>.
\<close>

fun subtract_slots ::
  "nat \<Rightarrow> plot_h \<Rightarrow> (plot_t \<Rightarrow> int \<Rightarrow> int \<Rightarrow> int \<Rightarrow> plot_t) \<Rightarrow> plot_t \<Rightarrow> int \<Rightarrow> int \<Rightarrow> int
     \<Rightarrow> nat \<Rightarrow> plot_t option" where
  "subtract_slots fuel K other pl dN rS sN 0 = Some pl"
| "subtract_slots fuel K other pl dN rS sN (Suc n) =
     (case
        (case sub (data pl dN) sN of
           SUBTRACT_FREE \<Rightarrow> Some pl
         | SUBTRACT_TIME_UNWRAP cN_1 unwrap prev prev2 \<Rightarrow>
             subtract_TIME_UNWRAP fuel K pl dN sN rS
         | _ \<Rightarrow> Some (other pl dN sN rS))
      of None \<Rightarrow> None
       | Some pl1 \<Rightarrow> subtract_slots fuel K other pl1 dN rS (sN + 1) n)"

text \<open>\<open>plotDataSubtract\<close> (plot.c, line 945).\<close>

definition plotDataSubtract ::
  "nat \<Rightarrow> plot_h \<Rightarrow> (plot_t \<Rightarrow> int \<Rightarrow> int \<Rightarrow> int \<Rightarrow> plot_t) \<Rightarrow> plot_t \<Rightarrow> int \<Rightarrow> int
     \<Rightarrow> plot_t option" where
  "plotDataSubtract fuel K other pl dN sN =
     (if dN < 0 \<or> dN \<ge> PLOT_DATASET_MAX K then Some (ERROR pl ''Dataset number is out of range'')
      else if sN < - 1 \<or> sN \<ge> PLOT_SUBTRACT K
        then Some (ERROR pl ''Subtract number %i is out of range'')
      else if sN < 0 then
        subtract_slots fuel K other
          (data_upd pl dN (\<lambda>d. d\<lparr>sub_N := tail_N d\<rparr>)) dN (sub_N (data pl dN)) 0
          (nat (PLOT_SUBTRACT K))
      else subtract_slots fuel K other pl dN (head_N (data pl dN)) sN 1)"

text \<open>The \<open>SUBTRACT_TIME_UNWRAP\<close> loop over the inputs of one call, and over the calls
  of a run in which the running state is kept from one call to the next.\<close>

fun time_unwrap_block :: "fval \<times> fval \<times> fval \<Rightarrow> fval list \<Rightarrow> fval list \<times> (fval \<times> fval \<times> fval)" where
  "time_unwrap_block st [] = ([], st)"
| "time_unwrap_block st (x # xs) =
     (case time_unwrap_step st x of (y, st1) \<Rightarrow>
        case time_unwrap_block st1 xs of (ys, st2) \<Rightarrow> (y # ys, st2))"


section \<open>Garbage sweep of derived columns\<close>

text \<open>The test \<open>plotCheckColumnLinked\<close> makes of one slot (plot.c, lines 2816 to 2854).\<close>

fun slot_reads :: "subtract_t \<Rightarrow> int \<Rightarrow> bool" where
  "slot_reads (SUBTRACT_SCALE c1 s ofs) cN = (cN = c1)"
| "slot_reads (SUBTRACT_BINARY_SUBTRACTION c1 c2) cN = (cN = c1 \<or> cN = c2)"
| "slot_reads (SUBTRACT_BINARY_ADDITION c1 c2) cN = (cN = c1 \<or> cN = c2)"
| "slot_reads (SUBTRACT_BINARY_MULTIPLICATION c1 c2) cN = (cN = c1 \<or> cN = c2)"
| "slot_reads (SUBTRACT_BINARY_HYPOTENUSE c1 c2) cN = (cN = c1 \<or> cN = c2)"
| "slot_reads (SUBTRACT_FILTER_DIFFERENCE c1 a1 a2 st) cN = (cN = c1)"
| "slot_reads (SUBTRACT_FILTER_CUMULATIVE c1 a1 a2 st) cN = (cN = c1)"
| "slot_reads (SUBTRACT_FILTER_BITMASK c1 a1 a2 st) cN = (cN = c1)"
| "slot_reads (SUBTRACT_FILTER_LOW_PASS c1 a1 a2 st) cN = (cN = c1)"
| "slot_reads (SUBTRACT_RESAMPLE cX ciX ciY idN) cN = (cN = cX)"
| "slot_reads s cN = False"

text \<open>\<open>plotCheckColumnLinked\<close> (plot.c, line 2809).\<close>

definition plotCheckColumnLinked :: "plot_h \<Rightarrow> plot_t \<Rightarrow> int \<Rightarrow> int \<Rightarrow> int" where
  "plotCheckColumnLinked K pl dN cN =
     (if find_from (\<lambda>sN. slot_reads (sub (data pl dN) sN) cN) 0 (nat (PLOT_SUBTRACT K)) \<ge> 0
         \<or> find_from (\<lambda>fN. fg_busy (figure pl fN) \<noteq> 0
               \<and> (cN = fg_column_X (figure pl fN) \<or> cN = fg_column_Y (figure pl fN)))
             0 (nat (PLOT_FIGURE_MAX K)) \<ge> 0
      then 1 else 0)"

text \<open>One pass of \<open>plotSubtractGarbage\<close> over the slots (lines 2880 to 2893), \<open>n\<close> slots
  from \<open>sN\<close> on: the state and the number \<open>N\<close> of slots freed.\<close>

fun garbage_pass :: "plot_h \<Rightarrow> plot_t \<Rightarrow> int \<Rightarrow> int \<Rightarrow> int \<Rightarrow> nat \<Rightarrow> plot_t \<times> int" where
  "garbage_pass K pl dN sN N 0 = (pl, N)"
| "garbage_pass K pl dN sN N (Suc n) =
     (if sub (data pl dN) sN \<noteq> SUBTRACT_FREE
         \<and> plotCheckColumnLinked K pl dN (sN + column_N (data pl dN)) = 0
      then garbage_pass K (data_upd pl dN (\<lambda>d. d\<lparr>sub := (sub d)(sN := SUBTRACT_FREE)\<rparr>))
             dN (sN + 1) (N + 1) n
      else garbage_pass K pl dN (sN + 1) N n)"

text \<open>\<open>plotSubtractGarbage\<close> (plot.c, line 2872): passes until one frees nothing;
  \<open>None\<close> when the fuel runs out first.\<close>

fun plotSubtractGarbage :: "nat \<Rightarrow> plot_h \<Rightarrow> plot_t \<Rightarrow> int \<Rightarrow> plot_t option" where
  "plotSubtractGarbage 0 K pl dN = None"
| "plotSubtractGarbage (Suc fuel) K pl dN =
     (case garbage_pass K pl dN 0 0 (nat (PLOT_SUBTRACT K)) of
        (pl1, N) \<Rightarrow> if N \<noteq> 0 then plotSubtractGarbage fuel K pl1 dN else Some pl1)"

section \<open>The engine as allocated\<close>

text \<open>
  \<open>plotAlloc\<close> (plot.c, line 58) for the members modelled here: \<open>calloc\<close> zeroes the
  structure, so every index and flag is \<open>0\<close>, every pointer is \<open>NULL\<close> and every axis and
  slot is free (\<open>AXIS_FREE\<close> and \<open>SUBTRACT_FREE\<close> are taken to be \<open>0\<close>, as the test
  \<open>busy == 0\<close> of \<open>plotGetFreeSubtract\<close> has it). The contents of the store and the
  behaviour of the allocator and of the codec are parameters.
\<close>

definition plotAlloc :: "(addr \<Rightarrow> buffer) \<Rightarrow> (nat \<Rightarrow> bool) \<Rightarrow> (buffer \<Rightarrow> int) \<Rightarrow> plot_t" where
  "plotAlloc m hf lz =
     \<lparr>data = (\<lambda>dN. \<lparr>column_N = 0, length_N = 0, head_N = 0, tail_N = 0, id_N = 0, sub_N = 0,
         chunk_SHIFT = 0, chunk_MASK = 0, chunk_bSIZE = 0, raw = (\<lambda>N. None),
         cache = (\<lambda>N. \<lparr>c_raw = None, c_chunk_N = 0, c_dirty = 0\<rparr>), cache_ID = 0,
         compress = (\<lambda>N. \<lparr>z_raw = None, z_length = 0\<rparr>), sub = (\<lambda>N. SUBTRACT_FREE)\<rparr>),
      rcache = (\<lambda>N. \<lparr>rc_busy = 0, rc_data_N = 0, rc_column_N = 0, rc_cached = 0,
         rc_fmin = Fin 0, rc_fmax = Fin 0,
         rc_chunk = (\<lambda>k. \<lparr>ck_computed = 0, ck_finite = 0, ck_fmin = Fin 0, ck_fmax = Fin 0\<rparr>)\<rparr>),
      rcache_ID = 0, rcache_wipe_data_N = 0, rcache_wipe_chunk_N = 0,
      axis = (\<lambda>N. \<lparr>ax_busy = AXIS_FREE, ax_slave = 0, ax_slave_N = 0, ax_scale = Fin 0,
         ax_offset = Fin 0, ax_lock_scale = 0\<rparr>),
      figure = (\<lambda>N. \<lparr>fg_busy = 0, fg_hidden = 0, fg_data_N = 0, fg_column_X = 0,
         fg_column_Y = 0, fg_axis_X = 0, fg_axis_Y = 0\<rparr>),
      viewport = \<lparr>min_x = 0, max_x = 0, min_y = 0, max_y = 0\<rparr>,
      on_X = 0, on_Y = 0, lz4_compress = 0,
      mem = m, heap_used = 0, heap_fail = hf, lz4_size = lz, errlog = [], wipe_calls = 0\<rparr>"

text \<open>Constants of plot.h used for the worked examples: small chunks, so that a handful
  of rows spans several of them.\<close>

definition K_small :: plot_h where
  "K_small = \<lparr>PLOT_DATASET_MAX = 10, PLOT_CHUNK_SIZE = 64, PLOT_CHUNK_MAX = 8,
     PLOT_CHUNK_CACHE = 2, PLOT_RCACHE_SIZE = 4, PLOT_AXES_MAX = 9, PLOT_FIGURE_MAX = 8,
     PLOT_SUBTRACT = 3, sizeof_fval_t = 8\<rparr>"

definition pl_empty :: plot_t where
  "pl_empty = plotAlloc (\<lambda>a i. NaN) (\<lambda>n. False) (\<lambda>b. 1)"

text \<open>Scenario A of the spec: a dataset of one column and length 4, and the rows
  1, 2, 3, 4, 5 inserted one after the other.\<close>

definition ring_alloc :: plot_t where
  "ring_alloc = plotDataAlloc K_small pl_empty 0 1 4"

definition ring_1 :: plot_t where
  "ring_1 = plotDataInsert K_small ring_alloc 0 [Fin 1]"

definition ring_2 :: plot_t where
  "ring_2 = plotDataInsert K_small ring_1 0 [Fin 2]"

definition ring_3 :: plot_t where
  "ring_3 = plotDataInsert K_small ring_2 0 [Fin 3]"

definition ring_4 :: plot_t where
  "ring_4 = plotDataInsert K_small ring_3 0 [Fin 4]"

definition ring_5 :: plot_t where
  "ring_5 = plotDataInsert K_small ring_4 0 [Fin 5]"

text \<open>The ring index that follows \<open>rN\<close> in dataset \<open>dN\<close>, as every cursor advances.\<close>

definition ring_next :: "plot_t \<Rightarrow> int \<Rightarrow> int \<Rightarrow> int" where
  "ring_next pl dN rN = (if rN < length_N (data pl dN) - 1 then rN + 1 else 0)"

text \<open>Example engines with axes: axes 0 and 1 carry X, axis 2 carries Y.\<close>

definition pl_axes :: plot_t where
  "pl_axes = pl_empty\<lparr>
     axis := (axis pl_empty)
       (0 := \<lparr>ax_busy = AXIS_BUSY_X, ax_slave = 0, ax_slave_N = 0, ax_scale = Fin 1,
              ax_offset = Fin 0, ax_lock_scale = 0\<rparr>,
        1 := \<lparr>ax_busy = AXIS_BUSY_X, ax_slave = 0, ax_slave_N = 0, ax_scale = Fin 1,
              ax_offset = Fin 0, ax_lock_scale = 0\<rparr>,
        2 := \<lparr>ax_busy = AXIS_BUSY_Y, ax_slave = 0, ax_slave_N = 0, ax_scale = Fin 1,
              ax_offset = Fin 0, ax_lock_scale = 0\<rparr>),
     viewport := \<lparr>min_x = 0, max_x = 100, min_y = 0, max_y = 50\<rparr>\<rparr>"

definition pl_slave_same :: plot_t where
  "pl_slave_same = plotAxisSlave K_small pl_axes 1 0 (Fin 2) (Fin 1) AXIS_SLAVE_ENABLE"





text \<open>The ring geometry and cursors of a dataset.\<close>

definition ring_of :: "dataset_t \<Rightarrow> int \<times> int \<times> int \<times> int \<times> int \<times> int \<times> nat \<times> int" where
  "ring_of d =
     (column_N d, length_N d, head_N d, tail_N d, id_N d, sub_N d, chunk_SHIFT d, chunk_MASK d)"

text \<open>An engine with compression switched on whose allocator always fails, and a dataset
  of one column and length 4 in it.\<close>

definition pl_oom :: plot_t where
  "pl_oom = plotDataAlloc K_small (pl_empty\<lparr>lz4_compress := 1, heap_fail := (\<lambda>n. True)\<rparr>) 0 1 4"

text \<open>
  A dataset of two columns whose figure 0 was first rescaled on X (slot 0, a
  \<open>SUBTRACT_SCALE\<close> of column 0 that owns column 2) and then time-unwrapped on X (slot 1, a
  \<open>SUBTRACT_TIME_UNWRAP\<close> of column 2 that owns column 3): the figure now reads columns 3
  and 1, and column 2 is read by slot 1 only.
\<close>

definition pl_unwrap_of_scale :: plot_t where
  "pl_unwrap_of_scale = pl_empty\<lparr>
     data := (data pl_empty)(0 := (data pl_empty 0)\<lparr>column_N := 2,
       sub := (sub (data pl_empty 0))
         (0 := SUBTRACT_SCALE 0 (Fin 2) (Fin 0),
          1 := SUBTRACT_TIME_UNWRAP 2 (Fin 0) NaN NaN)\<rparr>),
     figure := (figure pl_empty)(0 := \<lparr>fg_busy = 1, fg_hidden = 0, fg_data_N = 0,
       fg_column_X = 3, fg_column_Y = 1, fg_axis_X = 0, fg_axis_Y = 1\<rparr>)\<rparr>"

text \<open>
  Rows 100, 1, 2 in the dataset of scenario A (two chunks of two rows), a fetch of the
  range of column 0, the row 3, which evicts the row 100, and a second fetch.
\<close>

definition rc_1 :: plot_t where
  "rc_1 = plotDataInsert K_small ring_alloc 0 [Fin 100]"

definition rc_2 :: plot_t where
  "rc_2 = plotDataInsert K_small rc_1 0 [Fin 1]"

definition rc_3 :: plot_t where
  "rc_3 = plotDataInsert K_small rc_2 0 [Fin 2]"

definition rc_f1 :: plot_t where
  "rc_f1 = (case plotDataRangeCacheFetch 8 K_small rc_3 0 0 of
              Some (xN, pl) \<Rightarrow> pl | None \<Rightarrow> rc_3)"

definition rc_4 :: plot_t where
  "rc_4 = plotDataInsert K_small rc_f1 0 [Fin 3]"

section \<open>Writes and the range cache\<close>

text \<open>The part of the engine that the range-cache wipe works on.\<close>

definition rc_part :: "plot_t \<Rightarrow> (int \<Rightarrow> rcache_t) \<times> int \<times> int \<times> nat" where
  "rc_part pl = (rcache pl, rcache_wipe_data_N pl, rcache_wipe_chunk_N pl, wipe_calls pl)"








section \<open>Scenario B\<close>

text \<open>Scenario B of the spec: a dataset of one column and length 8 (four chunks of two
  rows), the six rows inserted one after the other, slot 0 taken as \<open>plotGetSubtractTimeUnwrap\<close>
  takes a free slot for column 0, and the call of \<open>plotDataSubtract\<close> for that slot.\<close>

definition uw_alloc :: plot_t where
  "uw_alloc = plotDataAlloc K_small pl_empty 0 1 8"

definition uw_1 :: plot_t where
  "uw_1 = plotDataInsert K_small uw_alloc 0 [Fin 0]"

definition uw_2 :: plot_t where
  "uw_2 = plotDataInsert K_small uw_1 0 [Fin (1/2)]"

definition uw_3 :: plot_t where
  "uw_3 = plotDataInsert K_small uw_2 0 [Fin 1]"

definition uw_4 :: plot_t where
  "uw_4 = plotDataInsert K_small uw_3 0 [Fin (1/5)]"

definition uw_5 :: plot_t where
  "uw_5 = plotDataInsert K_small uw_4 0 [Fin (7/10)]"

definition uw_6 :: plot_t where
  "uw_6 = plotDataInsert K_small uw_5 0 [Fin (6/5)]"

definition uw_slot :: plot_t where
  "uw_slot = data_upd uw_6 0 (\<lambda>d. d\<lparr>sub := (sub d)(0 := SUBTRACT_TIME_UNWRAP 0 (Fin 0) (Fin 0) (Fin 0))\<rparr>)"

definition uw_out :: plot_t where
  "uw_out = (case plotDataSubtract 8 K_small (\<lambda>pl dN sN rS. pl) uw_slot 0 0 of
               Some pl \<Rightarrow> pl | None \<Rightarrow> uw_slot)"

text \<open>The values of column \<open>cN\<close> of the row buffer over the valid rows, from \<open>head_N\<close> to
  \<open>tail_N\<close>, read with \<open>plotDataGet\<close>; \<open>cN\<close> may be a derived column.\<close>

fun column_from :: "nat \<Rightarrow> plot_h \<Rightarrow> plot_t \<Rightarrow> int \<Rightarrow> int \<Rightarrow> int \<Rightarrow> fval list" where
  "column_from 0 K pl dN cN rN = []"
| "column_from (Suc fuel) K pl dN cN rN =
     (case plotDataGet K pl dN rN of
        (None, rN1, pl1) \<Rightarrow> []
      | (Some row, rN1, pl1) \<Rightarrow> row_get pl1 row cN # column_from fuel K pl1 dN cN rN1)"

definition column_values :: "plot_h \<Rightarrow> plot_t \<Rightarrow> int \<Rightarrow> int \<Rightarrow> fval list" where
  "column_values K pl dN cN =
     column_from (nat (length_N (data pl dN))) K pl dN cN (head_N (data pl dN))"



section \<open>Loops over an index range\<close>


lemma find_from_hit:
  "0 \<le> N \<Longrightarrow> find_from P N n \<ge> 0 \<Longrightarrow> P (find_from P N n) \<and> N \<le> find_from P N n \<and> find_from P N n < N + int n"
proof (induction n arbitrary: N)
  case 0
  then show ?case by simp
next
  case (Suc n)
  show ?case
  proof (cases "P N")
    case True
    then show ?thesis by simp
  next
    case False
    with Suc.prems have "find_from P (N + 1) n \<ge> 0" by simp
    with Suc.IH [of "N + 1"] Suc.prems False show ?thesis by simp
  qed
qed

section \<open>Axes\<close>

lemmas axis_ev = K_small_def pl_empty_def plotAlloc_def pl_axes_def plotAxisSlave_def
  axis_upd_def ERROR_def numeral_eq_Suc Let_def

lemma pl_slave_same_axes:
  "axis pl_slave_same 1 = \<lparr>ax_busy = AXIS_BUSY_X, ax_slave = 1, ax_slave_N = 0, ax_scale = Fin 2,
              ax_offset = Fin 1, ax_lock_scale = 0\<rparr>"
  "axis pl_slave_same 0 = \<lparr>ax_busy = AXIS_BUSY_X, ax_slave = 0, ax_slave_N = 0, ax_scale = Fin 1,
              ax_offset = Fin 0, ax_lock_scale = 0\<rparr>"
  "viewport pl_slave_same = \<lparr>min_x = 0, max_x = 100, min_y = 0, max_y = 50\<rparr>"
  by (simp_all add: pl_slave_same_def axis_ev)



lemmas fval_ev = plus_fval_def times_fval_def minus_fval_def divide_fval_def less_fval_def
  uminus_fval_def of_int_fval_def











text \<open>
  Claim C10. For an axis \<open>aN\<close> in range that is a slave, \<open>plotAxisScaleManual\<close>,
  \<open>plotAxisScaleZoom\<close> and \<open>plotAxisScaleMove\<close> return the engine state unchanged, and
  \<open>plotAxisScaleManual\<close> does the same for an axis that is free.
\<close>

theorem slave_axis_rescale_rejected:
  assumes "0 \<le> aN" and "aN < PLOT_AXES_MAX K"
  shows "(ax_slave (axis pl aN) \<noteq> 0 \<longrightarrow>
            plotAxisScaleManual K pl aN vmin vmax = pl
          \<and> plotAxisScaleZoom K pl aN origin zoom = pl
          \<and> plotAxisScaleMove K pl aN move = pl)
       \<and> (ax_busy (axis pl aN) = AXIS_FREE \<longrightarrow> plotAxisScaleManual K pl aN vmin vmax = pl)"
  using assms
  by (simp add: plotAxisScaleManual_def plotAxisScaleZoom_def plotAxisScaleMove_def)

text \<open>Witness for C10: the slave axis 1 of \<open>pl_slave_same\<close>, and the free axis 3 of the
  engine as allocated.\<close>

theorem slave_axis_rescale_rejected_witness:
  "plotAxisScaleManual K_small pl_slave_same 1 (Fin 0) (Fin 10) = pl_slave_same
   \<and> plotAxisScaleZoom K_small pl_slave_same 1 50 (Fin 2) = pl_slave_same
   \<and> plotAxisScaleMove K_small pl_slave_same 1 5 = pl_slave_same
   \<and> plotAxisScaleManual K_small pl_empty 3 (Fin 0) (Fin 10) = pl_empty"
proof -
  have r: "(0::int) \<le> 1" "1 < PLOT_AXES_MAX K_small" "(0::int) \<le> 3" "3 < PLOT_AXES_MAX K_small"
    by (simp_all add: K_small_def)
  have s: "ax_slave (axis pl_slave_same 1) \<noteq> 0"
    by (simp add: pl_slave_same_axes)
  have f: "ax_busy (axis pl_empty 3) = AXIS_FREE"
    by (simp add: pl_empty_def plotAlloc_def)
  from slave_axis_rescale_rejected [OF r(1,2), of pl_slave_same "Fin 0" "Fin 10" 50 "Fin 2" 5] s
       slave_axis_rescale_rejected [OF r(3,4), of pl_empty "Fin 0" "Fin 10" 50 "Fin 2" 5] f
  show ?thesis by blast
qed

section \<open>Inserting rows\<close>


section \<open>The store without compression\<close>

lemma wipe_once_frame [simp]:
  "data (wipe_once K pl dN kN) = data pl"
  "mem (wipe_once K pl dN kN) = mem pl"
  "lz4_compress (wipe_once K pl dN kN) = lz4_compress pl"
  "errlog (wipe_once K pl dN kN) = errlog pl"
  "heap_used (wipe_once K pl dN kN) = heap_used pl"
  by (simp_all add: wipe_once_def plotDataRangeCacheWipe_def)

lemma insert_prologue_plain:
  "lz4_compress pl = 0 \<Longrightarrow>
     insert_prologue K pl dN
       = wipe_once K pl dN (drop_bit (chunk_SHIFT (data pl dN)) (tail_N (data pl dN)))"
  by (simp add: insert_prologue_def)

lemma plotDataInsert_plain:
  assumes "lz4_compress pl = 0"
      and "raw (data pl dN) (drop_bit (chunk_SHIFT (data pl dN)) (tail_N (data pl dN))) = Some a"
  shows "plotDataInsert K pl dN row =
           (wipe_once K pl dN (drop_bit (chunk_SHIFT (data pl dN)) (tail_N (data pl dN))))
           \<lparr>mem := (mem pl)(a := (\<lambda>i.
                let off = (column_N (data pl dN) + PLOT_SUBTRACT K)
                            * (tail_N (data pl dN) AND chunk_MASK (data pl dN))
                in if off \<le> i \<and> i < off + column_N (data pl dN) then row ! nat (i - off)
                   else mem pl a i)),
             data := (data pl)(dN :=
               (let d = data pl dN; tN = ring_next pl dN (tail_N d) in
                if head_N d = tN then
                  d\<lparr>id_N := id_N d + 1, head_N := ring_next pl dN (head_N d),
                    sub_N := (if sub_N d = tN then ring_next pl dN (head_N d) else sub_N d),
                    tail_N := tN\<rparr>
                else d\<lparr>tail_N := tN\<rparr>))\<rparr>"
  using assms
  by (simp add: plotDataInsert_def insert_prologue_plain Let_def data_upd_def ring_next_def
      cong: if_cong)

lemma ring_alloc_facts:
  "column_N (data ring_alloc 0) = 1"
  "length_N (data ring_alloc 0) = 4"
  "head_N (data ring_alloc 0) = 0"
  "tail_N (data ring_alloc 0) = 0"
  "id_N (data ring_alloc 0) = 0"
  "sub_N (data ring_alloc 0) = 0"
  "chunk_SHIFT (data ring_alloc 0) = 1"
  "chunk_MASK (data ring_alloc 0) = 1"
  "lz4_compress ring_alloc = 0"
  "raw (data ring_alloc 0) 0 = Some 0"
  "raw (data ring_alloc 0) 1 = Some (Suc 0)"
  by (simp_all add: ring_alloc_def plotDataAlloc_def plotDataChunkAlloc_def K_small_def
      pl_empty_def plotAlloc_def data_upd_def Let_def malloc_def ERROR_def numeral_eq_Suc)

lemma ring_1_facts:
  "column_N (data ring_1 0) = 1"
  "length_N (data ring_1 0) = 4"
  "head_N (data ring_1 0) = 0"
  "tail_N (data ring_1 0) = 1"
  "id_N (data ring_1 0) = 0"
  "sub_N (data ring_1 0) = 0"
  "chunk_SHIFT (data ring_1 0) = 1"
  "chunk_MASK (data ring_1 0) = 1"
  "lz4_compress ring_1 = 0"
  "raw (data ring_1 0) 0 = Some 0"
  "raw (data ring_1 0) 1 = Some (Suc 0)"
  "mem ring_1 0 0 = Fin 1"
  by (simp_all add: ring_1_def plotDataInsert_plain [where a = "0"] ring_alloc_facts
      ring_next_def K_small_def)

lemma ring_2_facts:
  "column_N (data ring_2 0) = 1"
  "length_N (data ring_2 0) = 4"
  "head_N (data ring_2 0) = 0"
  "tail_N (data ring_2 0) = 2"
  "id_N (data ring_2 0) = 0"
  "sub_N (data ring_2 0) = 0"
  "chunk_SHIFT (data ring_2 0) = 1"
  "chunk_MASK (data ring_2 0) = 1"
  "lz4_compress ring_2 = 0"
  "raw (data ring_2 0) 0 = Some 0"
  "raw (data ring_2 0) 1 = Some (Suc 0)"
  "mem ring_2 0 0 = Fin 1"
  "mem ring_2 0 4 = Fin 2"
  by (simp_all add: ring_2_def plotDataInsert_plain [where a = "0"] ring_1_facts
      ring_next_def K_small_def)

lemma ring_3_facts:
  "column_N (data ring_3 0) = 1"
  "length_N (data ring_3 0) = 4"
  "head_N (data ring_3 0) = 0"
  "tail_N (data ring_3 0) = 3"
  "id_N (data ring_3 0) = 0"
  "sub_N (data ring_3 0) = 0"
  "chunk_SHIFT (data ring_3 0) = 1"
  "chunk_MASK (data ring_3 0) = 1"
  "lz4_compress ring_3 = 0"
  "raw (data ring_3 0) 0 = Some 0"
  "raw (data ring_3 0) 1 = Some (Suc 0)"
  "mem ring_3 0 0 = Fin 1"
  "mem ring_3 0 4 = Fin 2"
  "mem ring_3 (Suc 0) 0 = Fin 3"
  by (simp_all add: ring_3_def plotDataInsert_plain [where a = "Suc 0"] ring_2_facts
      ring_next_def K_small_def)

lemma ring_4_facts:
  "column_N (data ring_4 0) = 1"
  "length_N (data ring_4 0) = 4"
  "head_N (data ring_4 0) = 1"
  "tail_N (data ring_4 0) = 0"
  "id_N (data ring_4 0) = 1"
  "sub_N (data ring_4 0) = 1"
  "chunk_SHIFT (data ring_4 0) = 1"
  "chunk_MASK (data ring_4 0) = 1"
  "lz4_compress ring_4 = 0"
  "raw (data ring_4 0) 0 = Some 0"
  "raw (data ring_4 0) 1 = Some (Suc 0)"
  "mem ring_4 0 0 = Fin 1"
  "mem ring_4 0 4 = Fin 2"
  "mem ring_4 (Suc 0) 0 = Fin 3"
  "mem ring_4 (Suc 0) 4 = Fin 4"
  by (simp_all add: ring_4_def plotDataInsert_plain [where a = "Suc 0"] ring_3_facts
      ring_next_def K_small_def)

lemma ring_5_facts:
  "column_N (data ring_5 0) = 1"
  "length_N (data ring_5 0) = 4"
  "head_N (data ring_5 0) = 2"
  "tail_N (data ring_5 0) = 1"
  "id_N (data ring_5 0) = 2"
  "sub_N (data ring_5 0) = 2"
  "chunk_SHIFT (data ring_5 0) = 1"
  "chunk_MASK (data ring_5 0) = 1"
  "lz4_compress ring_5 = 0"
  "raw (data ring_5 0) 0 = Some 0"
  "raw (data ring_5 0) 1 = Some (Suc 0)"
  "mem ring_5 0 0 = Fin 5"
  "mem ring_5 0 4 = Fin 2"
  "mem ring_5 (Suc 0) 0 = Fin 3"
  "mem ring_5 (Suc 0) 4 = Fin 4"
  by (simp_all add: ring_5_def plotDataInsert_plain [where a = "0"] ring_4_facts
      ring_next_def K_small_def)

lemma ring_5_rows:
  "valid_rows K_small ring_5 0 = [(2, 2, [Fin 3]), (3, 3, [Fin 4]), (0, 4, [Fin 5])]"
  by (simp add: valid_rows_def ring_5_facts plotDataGet_def Let_def numeral_eq_Suc K_small_def)

lemma ring_4_rows:
  "valid_rows K_small ring_4 0 = [(1, 1, [Fin 2]), (2, 2, [Fin 3]), (3, 3, [Fin 4])]"
  by (simp add: valid_rows_def ring_4_facts plotDataGet_def Let_def numeral_eq_Suc K_small_def)


lemma ring_of_ERROR [simp]: "ring_of (data (ERROR pl msg) dN) = ring_of (data pl dN)"
  by (simp add: ERROR_def)

lemma ring_of_malloc [simp]: "ring_of (data (snd (malloc pl)) dN) = ring_of (data pl dN)"
  by (simp add: malloc_def)

lemma ring_of_data_upd:
  "(\<And>d. ring_of (f d) = ring_of d) \<Longrightarrow>
     ring_of (data (data_upd pl dN f) dN') = ring_of (data pl dN')"
  by (simp add: data_upd_def)

lemma ring_of_fields [simp]:
  "ring_of (d\<lparr>raw := r\<rparr>) = ring_of d"
  "ring_of (d\<lparr>cache := c\<rparr>) = ring_of d"
  "ring_of (d\<lparr>compress := z\<rparr>) = ring_of d"
  "ring_of (d\<lparr>cache_ID := i\<rparr>) = ring_of d"
  "ring_of (d\<lparr>sub := sb\<rparr>) = ring_of d"
  by (simp_all add: ring_of_def)

lemma ring_of_CacheGetNode [simp]:
  "ring_of (data (snd (plotDataCacheGetNode K pl dN kN)) dN') = ring_of (data pl dN')"
  by (simp add: plotDataCacheGetNode_def Let_def ring_of_data_upd)

lemma ring_of_cache_store_back [simp]:
  "ring_of (data (cache_store_back pl dN xN a) dN') = ring_of (data pl dN')"
proof -
  obtain z pl1 where m: "malloc pl = (z, pl1)" by (cases "malloc pl")
  then have "ring_of (data pl1 dN') = ring_of (data pl dN')"
    using ring_of_malloc [of pl dN'] by simp
  then show ?thesis
    by (simp add: cache_store_back_def Let_def m ring_of_data_upd)
qed

lemma ring_of_cache_take [simp]:
  "ring_of (data (cache_take pl dN xN) dN') = ring_of (data pl dN')"
proof -
  obtain z pl1 where m: "malloc pl = (z, pl1)" by (cases "malloc pl")
  then have "ring_of (data pl1 dN') = ring_of (data pl dN')"
    using ring_of_malloc [of pl dN'] by simp
  then show ?thesis
    by (simp add: cache_take_def Let_def m ring_of_data_upd)
qed

lemma ring_of_cache_load [simp]:
  "ring_of (data (cache_load pl dN xN kN) dN') = ring_of (data pl dN')"
  by (simp add: cache_load_def Let_def ring_of_data_upd split: option.splits)

lemma ring_of_CacheFetch [simp]:
  "ring_of (data (plotDataCacheFetch K pl dN kN) dN') = ring_of (data pl dN')"
proof -
  obtain xN pl1 where g: "plotDataCacheGetNode K pl dN kN = (xN, pl1)"
    by (cases "plotDataCacheGetNode K pl dN kN")
  then have "ring_of (data pl1 dN') = ring_of (data pl dN')"
    using ring_of_CacheGetNode [of K pl dN kN dN'] by simp
  then show ?thesis
    by (simp add: plotDataCacheFetch_def g split: option.splits)
qed

lemma ring_of_ChunkWrite [simp]:
  "ring_of (data (plotDataChunkWrite K pl dN kN) dN') = ring_of (data pl dN')"
  by (simp add: plotDataChunkWrite_def Let_def ring_of_data_upd)

lemma ring_of_ChunkFetch [simp]:
  "ring_of (data (plotDataChunkFetch K pl dN kN) dN') = ring_of (data pl dN')"
  by (simp add: plotDataChunkFetch_def)

lemma ring_of_wipe_once [simp]:
  "ring_of (data (wipe_once K pl dN kN) dN') = ring_of (data pl dN')"
  by (simp add: wipe_once_def plotDataRangeCacheWipe_def)

lemma ring_of_insert_prologue:
  "ring_of (data (insert_prologue K pl dN) dN') = ring_of (data pl dN')"
  by (simp add: insert_prologue_def Let_def)


lemma raw_insert_prologue_plain:
  "lz4_compress pl = 0 \<Longrightarrow> raw (data (insert_prologue K pl dN) dN') = raw (data pl dN')"
  by (simp add: insert_prologue_plain)

lemma plotDataInsert_failure:
  assumes "raw (data (insert_prologue K pl dN) dN)
             (drop_bit (chunk_SHIFT (data pl dN)) (tail_N (data pl dN))) = None"
  shows "plotDataInsert K pl dN row = insert_prologue K pl dN"
  using assms by (simp add: plotDataInsert_def Let_def)

lemma ring_fields_of:
  "ring_of d' = ring_of d \<Longrightarrow>
     column_N d' = column_N d \<and> length_N d' = length_N d \<and> head_N d' = head_N d
     \<and> tail_N d' = tail_N d \<and> id_N d' = id_N d \<and> sub_N d' = sub_N d
     \<and> chunk_SHIFT d' = chunk_SHIFT d \<and> chunk_MASK d' = chunk_MASK d"
  by (simp add: ring_of_def)

lemma plotDataInsert_success_ring:
  assumes "raw (data (insert_prologue K pl dN) dN)
             (drop_bit (chunk_SHIFT (data pl dN)) (tail_N (data pl dN))) = Some a"
  shows "tail_N (data (plotDataInsert K pl dN row) dN) = ring_next pl dN (tail_N (data pl dN))"
    and "ring_next pl dN (tail_N (data pl dN)) = head_N (data pl dN) \<Longrightarrow>
           head_N (data (plotDataInsert K pl dN row) dN) = ring_next pl dN (head_N (data pl dN))
           \<and> id_N (data (plotDataInsert K pl dN row) dN) = id_N (data pl dN) + 1"
    and "ring_next pl dN (tail_N (data pl dN)) \<noteq> head_N (data pl dN) \<Longrightarrow>
           head_N (data (plotDataInsert K pl dN row) dN) = head_N (data pl dN)
           \<and> id_N (data (plotDataInsert K pl dN row) dN) = id_N (data pl dN)"
    and "0 \<le> c \<Longrightarrow> c < column_N (data pl dN) \<Longrightarrow>
           mem (plotDataInsert K pl dN row) a
             ((column_N (data pl dN) + PLOT_SUBTRACT K)
                * (tail_N (data pl dN) AND chunk_MASK (data pl dN)) + c) = row ! nat c"
    and "errlog (plotDataInsert K pl dN row) = errlog (insert_prologue K pl dN)"
  using ring_fields_of [OF ring_of_insert_prologue [of K pl dN dN]] assms
  by (simp_all add: plotDataInsert_def Let_def data_upd_def ring_next_def)


lemma pl_empty_insert_facts:
  "lz4_compress pl_empty = 0"
  "raw (data pl_empty 0) k = None"
  "ring_of (data pl_empty 0) = (0, 0, 0, 0, 0, 0, 0, 0)"
  "errlog pl_empty = []"
  by (simp_all add: pl_empty_def plotAlloc_def ring_of_def)

lemma pl_oom_facts:
  "lz4_compress pl_oom = 1"
  "column_N (data pl_oom 0) = 1" "length_N (data pl_oom 0) = 4"
  "head_N (data pl_oom 0) = 0" "tail_N (data pl_oom 0) = 0"
  "id_N (data pl_oom 0) = 0" "sub_N (data pl_oom 0) = 0"
  "chunk_SHIFT (data pl_oom 0) = 1" "chunk_MASK (data pl_oom 0) = 1"
  "raw (data pl_oom 0) k = None"
  "c_raw (cache (data pl_oom 0) k) = None"
  "z_raw (compress (data pl_oom 0) k) = None"
  "heap_fail pl_oom n = True"
  "errlog pl_oom = []"
  by (simp_all add: pl_oom_def plotDataAlloc_def plotDataChunkAlloc_def K_small_def
      pl_empty_def plotAlloc_def data_upd_def Let_def numeral_eq_Suc)

lemma pl_oom_prologue:
  "raw (data (insert_prologue K_small pl_oom 0) 0) 0 = None"
  "errlog (insert_prologue K_small pl_oom 0) = [''Unable to allocate cache of %i dataset'']"
  by (simp_all add: insert_prologue_def plotDataChunkWrite_def plotDataCacheFetch_def
      plotDataCacheGetNode_def cache_take_def cache_load_def malloc_def ERROR_def
      data_upd_def Let_def pl_oom_facts K_small_def numeral_eq_Suc
      wipe_once_def plotDataRangeCacheWipe_def)

text \<open>
  Claim C9. \<open>plotDataInsert\<close> first makes the chunk of \<open>tail_N\<close> writable and wipes the
  range cache (\<open>insert_prologue\<close>), which leaves the geometry and the cursors of the
  dataset as they were. If the buffer \<open>raw[kN]\<close> of that chunk is then \<open>NULL\<close>, the row is
  dropped: nothing else happens, so \<open>head_N\<close>, \<open>tail_N\<close>, \<open>id_N\<close> and \<open>sub_N\<close> are unchanged.
  If the buffer is there, the \<open>column_N\<close> values of the row are stored at the place of
  \<open>tail_N\<close> and \<open>tail_N\<close> advances. The function returns nothing to its caller; what it
  logs is what making the chunk writable logged, and without compression that is nothing.
\<close>

theorem plotDataInsert_drops_without_buffer:
  "ring_of (data (insert_prologue K pl dN) dN) = ring_of (data pl dN)
   \<and> errlog (plotDataInsert K pl dN row) = errlog (insert_prologue K pl dN)
   \<and> (lz4_compress pl = 0 \<longrightarrow>
        errlog (insert_prologue K pl dN) = errlog pl \<and> mem (insert_prologue K pl dN) = mem pl
        \<and> raw (data (insert_prologue K pl dN) dN) = raw (data pl dN))
   \<and> (raw (data (insert_prologue K pl dN) dN)
         (drop_bit (chunk_SHIFT (data pl dN)) (tail_N (data pl dN))) = None \<longrightarrow>
        plotDataInsert K pl dN row = insert_prologue K pl dN
        \<and> ring_of (data (plotDataInsert K pl dN row) dN) = ring_of (data pl dN))
   \<and> (raw (data (insert_prologue K pl dN) dN)
         (drop_bit (chunk_SHIFT (data pl dN)) (tail_N (data pl dN))) = Some a \<longrightarrow>
        tail_N (data (plotDataInsert K pl dN row) dN) = ring_next pl dN (tail_N (data pl dN))
        \<and> (\<forall>c. 0 \<le> c \<and> c < column_N (data pl dN) \<longrightarrow>
              mem (plotDataInsert K pl dN row) a
                ((column_N (data pl dN) + PLOT_SUBTRACT K)
                   * (tail_N (data pl dN) AND chunk_MASK (data pl dN)) + c) = row ! nat c))"
proof (intro conjI impI allI)
  show "ring_of (data (insert_prologue K pl dN) dN) = ring_of (data pl dN)"
    by (rule ring_of_insert_prologue)
  show "errlog (plotDataInsert K pl dN row) = errlog (insert_prologue K pl dN)"
  proof (cases "raw (data (insert_prologue K pl dN) dN)
         (drop_bit (chunk_SHIFT (data pl dN)) (tail_N (data pl dN)))")
    case None
    then show ?thesis by (simp add: plotDataInsert_failure)
  next
    case (Some b)
    then show ?thesis by (rule plotDataInsert_success_ring(5))
  qed
next
  assume "lz4_compress pl = 0"
  then show "errlog (insert_prologue K pl dN) = errlog pl"
    and "mem (insert_prologue K pl dN) = mem pl"
    and "raw (data (insert_prologue K pl dN) dN) = raw (data pl dN)"
    by (simp_all add: insert_prologue_plain)
next
  assume n: "raw (data (insert_prologue K pl dN) dN)
         (drop_bit (chunk_SHIFT (data pl dN)) (tail_N (data pl dN))) = None"
  then show e: "plotDataInsert K pl dN row = insert_prologue K pl dN"
    by (rule plotDataInsert_failure)
  show "ring_of (data (plotDataInsert K pl dN row) dN) = ring_of (data pl dN)"
    unfolding e by (rule ring_of_insert_prologue)
next
  assume s: "raw (data (insert_prologue K pl dN) dN)
         (drop_bit (chunk_SHIFT (data pl dN)) (tail_N (data pl dN))) = Some a"
  then show "tail_N (data (plotDataInsert K pl dN row) dN) = ring_next pl dN (tail_N (data pl dN))"
    by (rule plotDataInsert_success_ring(1))
  fix c
  assume "0 \<le> c \<and> c < column_N (data pl dN)"
  with s show "mem (plotDataInsert K pl dN row) a
                ((column_N (data pl dN) + PLOT_SUBTRACT K)
                   * (tail_N (data pl dN) AND chunk_MASK (data pl dN)) + c) = row ! nat c"
    using plotDataInsert_success_ring(4) [OF s, of c row] by simp
qed

text \<open>
  Witness for C9: an insert with compression on and an allocator that fails (the row is
  dropped, the cursors stay, one message is logged), an insert into a dataset that was
  never allocated, and an insert that succeeds.
\<close>

theorem plotDataInsert_drops_without_buffer_witness:
  "plotDataInsert K_small pl_oom 0 [Fin 1] = insert_prologue K_small pl_oom 0
   \<and> ring_of (data (plotDataInsert K_small pl_oom 0 [Fin 1]) 0) = (1, 4, 0, 0, 0, 0, 1, 1)
   \<and> ring_of (data pl_oom 0) = (1, 4, 0, 0, 0, 0, 1, 1)
   \<and> errlog (plotDataInsert K_small pl_oom 0 [Fin 1]) = [''Unable to allocate cache of %i dataset'']
   \<and> ring_of (data (plotDataInsert K_small pl_empty 0 [Fin 1]) 0) = ring_of (data pl_empty 0)
   \<and> errlog (plotDataInsert K_small pl_empty 0 [Fin 1]) = []
   \<and> tail_N (data (plotDataInsert K_small ring_alloc 0 [Fin 1]) 0) = 1
   \<and> mem (plotDataInsert K_small ring_alloc 0 [Fin 1]) 0 0 = Fin 1"
proof -
  note t1 = plotDataInsert_drops_without_buffer [of K_small pl_oom 0 "[Fin 1]" 0]
  note t2 = plotDataInsert_drops_without_buffer [of K_small pl_empty 0 "[Fin 1]" 0]
  note t3 = plotDataInsert_drops_without_buffer [of K_small ring_alloc 0 "[Fin 1]" 0]
  have r: "ring_of (data pl_oom 0) = (1, 4, 0, 0, 0, 0, 1, 1)"
    by (simp add: ring_of_def pl_oom_facts)
  have n1: "raw (data (insert_prologue K_small pl_oom 0) 0)
         (drop_bit (chunk_SHIFT (data pl_oom 0)) (tail_N (data pl_oom 0))) = None"
    by (simp add: pl_oom_facts pl_oom_prologue)
  from t1 n1 have a: "plotDataInsert K_small pl_oom 0 [Fin 1] = insert_prologue K_small pl_oom 0"
    and b: "ring_of (data (plotDataInsert K_small pl_oom 0 [Fin 1]) 0) = ring_of (data pl_oom 0)"
    by blast+
  from a have c: "errlog (plotDataInsert K_small pl_oom 0 [Fin 1])
      = [''Unable to allocate cache of %i dataset'']"
    by (simp add: pl_oom_prologue)
  have n2: "raw (data (insert_prologue K_small pl_empty 0) 0)
         (drop_bit (chunk_SHIFT (data pl_empty 0)) (tail_N (data pl_empty 0))) = None"
    by (simp add: insert_prologue_plain pl_empty_insert_facts)
  from t2 n2 have d: "ring_of (data (plotDataInsert K_small pl_empty 0 [Fin 1]) 0)
      = ring_of (data pl_empty 0)"
    by blast
  from t2 have "errlog (plotDataInsert K_small pl_empty 0 [Fin 1])
      = errlog (insert_prologue K_small pl_empty 0)"
    by blast
  then have e: "errlog (plotDataInsert K_small pl_empty 0 [Fin 1]) = []"
    by (simp add: insert_prologue_plain pl_empty_insert_facts)
  have n3: "raw (data (insert_prologue K_small ring_alloc 0) 0)
         (drop_bit (chunk_SHIFT (data ring_alloc 0)) (tail_N (data ring_alloc 0))) = Some 0"
    by (simp add: insert_prologue_plain ring_alloc_facts)
  from t3 n3 have f: "tail_N (data (plotDataInsert K_small ring_alloc 0 [Fin 1]) 0)
      = ring_next ring_alloc 0 (tail_N (data ring_alloc 0))"
    and g: "\<forall>c. 0 \<le> c \<and> c < column_N (data ring_alloc 0) \<longrightarrow>
              mem (plotDataInsert K_small ring_alloc 0 [Fin 1]) 0
                ((column_N (data ring_alloc 0) + PLOT_SUBTRACT K_small)
                   * (tail_N (data ring_alloc 0) AND chunk_MASK (data ring_alloc 0)) + c)
                = [Fin 1] ! nat c"
    by blast+
  from f have f': "tail_N (data (plotDataInsert K_small ring_alloc 0 [Fin 1]) 0) = 1"
    by (simp add: ring_next_def ring_alloc_facts)
  from g [rule_format, of 0] have g': "mem (plotDataInsert K_small ring_alloc 0 [Fin 1]) 0 0 = Fin 1"
    by (simp add: ring_alloc_facts)
  from a b r c d e f' g' show ?thesis by simp
qed


lemma plotDataInsert_plain_ring:
  assumes "lz4_compress pl = 0"
      and "raw (data pl dN) (drop_bit (chunk_SHIFT (data pl dN)) (tail_N (data pl dN))) \<noteq> None"
  shows "lz4_compress (plotDataInsert K pl dN row) = 0"
    and "raw (data (plotDataInsert K pl dN row) dN) = raw (data pl dN)"
    and "length_N (data (plotDataInsert K pl dN row) dN) = length_N (data pl dN)"
    and "chunk_SHIFT (data (plotDataInsert K pl dN row) dN) = chunk_SHIFT (data pl dN)"
    and "tail_N (data (plotDataInsert K pl dN row) dN) = ring_next pl dN (tail_N (data pl dN))"
    and "head_N (data (plotDataInsert K pl dN row) dN) =
           (if ring_next pl dN (tail_N (data pl dN)) = head_N (data pl dN)
            then ring_next pl dN (head_N (data pl dN)) else head_N (data pl dN))"
    and "id_N (data (plotDataInsert K pl dN row) dN) =
           (if ring_next pl dN (tail_N (data pl dN)) = head_N (data pl dN)
            then id_N (data pl dN) + 1 else id_N (data pl dN))"
proof -
  from assms(2) obtain a where
    a: "raw (data pl dN) (drop_bit (chunk_SHIFT (data pl dN)) (tail_N (data pl dN))) = Some a"
    by blast
  show "lz4_compress (plotDataInsert K pl dN row) = 0"
    and "raw (data (plotDataInsert K pl dN row) dN) = raw (data pl dN)"
    and "length_N (data (plotDataInsert K pl dN row) dN) = length_N (data pl dN)"
    and "chunk_SHIFT (data (plotDataInsert K pl dN row) dN) = chunk_SHIFT (data pl dN)"
    and "tail_N (data (plotDataInsert K pl dN row) dN) = ring_next pl dN (tail_N (data pl dN))"
    and "head_N (data (plotDataInsert K pl dN row) dN) =
           (if ring_next pl dN (tail_N (data pl dN)) = head_N (data pl dN)
            then ring_next pl dN (head_N (data pl dN)) else head_N (data pl dN))"
    and "id_N (data (plotDataInsert K pl dN row) dN) =
           (if ring_next pl dN (tail_N (data pl dN)) = head_N (data pl dN)
            then id_N (data pl dN) + 1 else id_N (data pl dN))"
    using assms(1)
    by (simp_all add: plotDataInsert_plain [OF assms(1) a] Let_def)
qed

lemma five_inserts_indices:
  assumes plain: "lz4_compress pl = 0"
      and len: "length_N (data pl dN) = 4"
      and emp: "head_N (data pl dN) = 0" "tail_N (data pl dN) = 0" "id_N (data pl dN) = 0"
      and bufs: "\<forall>t. 0 \<le> t \<and> t < 4 \<longrightarrow> raw (data pl dN) (drop_bit (chunk_SHIFT (data pl dN)) t) \<noteq> None"
  shows "head_N (data (fold (\<lambda>r p. plotDataInsert K p dN r) [r1, r2, r3, r4, r5] pl) dN) = 2
       \<and> tail_N (data (fold (\<lambda>r p. plotDataInsert K p dN r) [r1, r2, r3, r4, r5] pl) dN) = 1
       \<and> id_N (data (fold (\<lambda>r p. plotDataInsert K p dN r) [r1, r2, r3, r4, r5] pl) dN) = 2"
proof -
  define p1 where "p1 = plotDataInsert K pl dN r1"
  define p2 where "p2 = plotDataInsert K p1 dN r2"
  define p3 where "p3 = plotDataInsert K p2 dN r3"
  define p4 where "p4 = plotDataInsert K p3 dN r4"
  define p5 where "p5 = plotDataInsert K p4 dN r5"
  have b: "raw (data pl dN) (drop_bit (chunk_SHIFT (data pl dN)) t) \<noteq> None"
    if "0 \<le> t" "t < 4" for t
    using bufs that by blast
  have f1: "lz4_compress p1 = 0" "raw (data p1 dN) = raw (data pl dN)"
    "length_N (data p1 dN) = 4" "chunk_SHIFT (data p1 dN) = chunk_SHIFT (data pl dN)"
    "tail_N (data p1 dN) = 1" "head_N (data p1 dN) = 0" "id_N (data p1 dN) = 0"
    unfolding p1_def
    using plotDataInsert_plain_ring [of pl dN K r1] plain len emp b [of 0]
    by (simp_all add: ring_next_def)
  have f2: "lz4_compress p2 = 0" "raw (data p2 dN) = raw (data pl dN)"
    "length_N (data p2 dN) = 4" "chunk_SHIFT (data p2 dN) = chunk_SHIFT (data pl dN)"
    "tail_N (data p2 dN) = 2" "head_N (data p2 dN) = 0" "id_N (data p2 dN) = 0"
    unfolding p2_def
    using plotDataInsert_plain_ring [of p1 dN K r2] f1 b [of 1]
    by (simp_all add: ring_next_def)
  have f3: "lz4_compress p3 = 0" "raw (data p3 dN) = raw (data pl dN)"
    "length_N (data p3 dN) = 4" "chunk_SHIFT (data p3 dN) = chunk_SHIFT (data pl dN)"
    "tail_N (data p3 dN) = 3" "head_N (data p3 dN) = 0" "id_N (data p3 dN) = 0"
    unfolding p3_def
    using plotDataInsert_plain_ring [of p2 dN K r3] f2 b [of 2]
    by (simp_all add: ring_next_def)
  have f4: "lz4_compress p4 = 0" "raw (data p4 dN) = raw (data pl dN)"
    "length_N (data p4 dN) = 4" "chunk_SHIFT (data p4 dN) = chunk_SHIFT (data pl dN)"
    "tail_N (data p4 dN) = 0" "head_N (data p4 dN) = 1" "id_N (data p4 dN) = 1"
    unfolding p4_def
    using plotDataInsert_plain_ring [of p3 dN K r4] f3 b [of 3]
    by (simp_all add: ring_next_def)
  have f5: "tail_N (data p5 dN) = 1" "head_N (data p5 dN) = 2" "id_N (data p5 dN) = 2"
    unfolding p5_def
    using plotDataInsert_plain_ring [of p4 dN K r5] f4 b [of 0]
    by (simp_all add: ring_next_def)
  have "fold (\<lambda>r p. plotDataInsert K p dN r) [r1, r2, r3, r4, r5] pl = p5"
    by (simp add: p1_def p2_def p3_def p4_def p5_def)
  with f5 show ?thesis by simp
qed

lemma ring_5_is_fold:
  "ring_5 = fold (\<lambda>r p. plotDataInsert K_small p 0 r)
              [[Fin 1], [Fin 2], [Fin 3], [Fin 4], [Fin 5]] ring_alloc"
  by (simp add: ring_5_def ring_4_def ring_3_def ring_2_def ring_1_def)

text \<open>
  Claim C1, as stated, fails: after the five inserts into the dataset of length 4 the
  valid rows are 3, 4, 5, not 2, 3, 4, 5, and the logical id of the head row is 2, not 1.
  The ring keeps one place free, because \<open>tail_N = head_N\<close> means that it is empty.
\<close>

theorem ring_overflow_counterexample:
  "map (\<lambda>r. snd (snd r)) (valid_rows K_small ring_5 0) = [[Fin 3], [Fin 4], [Fin 5]]
   \<and> map (\<lambda>r. snd (snd r)) (valid_rows K_small ring_5 0) \<noteq> [[Fin 2], [Fin 3], [Fin 4], [Fin 5]]
   \<and> id_N (data ring_5 0) = 2 \<and> id_N (data ring_5 0) \<noteq> 1"
  by (simp add: ring_5_rows ring_5_facts)

text \<open>
  Claim C1, amended. For the dataset of one column and length 4, the five inserts leave
  exactly the rows 3, 4, 5 valid, at the ring places 2, 3, 0 with the logical ids 2, 3, 4.
  The cursors do not depend on the constants of plot.h: in any engine without compression
  whose dataset of length 4 is empty at place 0 and has the buffers of its four places,
  five inserts end with \<open>head_N = 2\<close>, \<open>tail_N = 1\<close> and \<open>id_N = 2\<close>. In general, when an insert
  stores its row and the advanced tail meets the head, the oldest row is evicted:
  \<open>head_N\<close> advances and \<open>id_N\<close> is incremented.
\<close>

theorem ring_overflow_evicts:
  "valid_rows K_small ring_5 0 = [(2, 2, [Fin 3]), (3, 3, [Fin 4]), (0, 4, [Fin 5])]
   \<and> (lz4_compress pl = 0 \<and> length_N (data pl dN) = 4
        \<and> head_N (data pl dN) = 0 \<and> tail_N (data pl dN) = 0 \<and> id_N (data pl dN) = 0
        \<and> (\<forall>t. 0 \<le> t \<and> t < 4 \<longrightarrow>
              raw (data pl dN) (drop_bit (chunk_SHIFT (data pl dN)) t) \<noteq> None)
      \<longrightarrow> head_N (data (fold (\<lambda>r p. plotDataInsert K p dN r) [r1, r2, r3, r4, r5] pl) dN) = 2
        \<and> tail_N (data (fold (\<lambda>r p. plotDataInsert K p dN r) [r1, r2, r3, r4, r5] pl) dN) = 1
        \<and> id_N (data (fold (\<lambda>r p. plotDataInsert K p dN r) [r1, r2, r3, r4, r5] pl) dN) = 2)
   \<and> (raw (data (insert_prologue K pl dN) dN)
         (drop_bit (chunk_SHIFT (data pl dN)) (tail_N (data pl dN))) = Some a
        \<and> ring_next pl dN (tail_N (data pl dN)) = head_N (data pl dN)
      \<longrightarrow> head_N (data (plotDataInsert K pl dN row) dN) = ring_next pl dN (head_N (data pl dN))
        \<and> id_N (data (plotDataInsert K pl dN row) dN) = id_N (data pl dN) + 1
        \<and> tail_N (data (plotDataInsert K pl dN row) dN) = ring_next pl dN (tail_N (data pl dN)))"
proof (intro conjI impI)
  show "valid_rows K_small ring_5 0 = [(2, 2, [Fin 3]), (3, 3, [Fin 4]), (0, 4, [Fin 5])]"
    by (rule ring_5_rows)
next
  assume h: "lz4_compress pl = 0 \<and> length_N (data pl dN) = 4
        \<and> head_N (data pl dN) = 0 \<and> tail_N (data pl dN) = 0 \<and> id_N (data pl dN) = 0
        \<and> (\<forall>t. 0 \<le> t \<and> t < 4 \<longrightarrow>
              raw (data pl dN) (drop_bit (chunk_SHIFT (data pl dN)) t) \<noteq> None)"
  then have g: "head_N (data (fold (\<lambda>r p. plotDataInsert K p dN r) [r1, r2, r3, r4, r5] pl) dN) = 2
       \<and> tail_N (data (fold (\<lambda>r p. plotDataInsert K p dN r) [r1, r2, r3, r4, r5] pl) dN) = 1
       \<and> id_N (data (fold (\<lambda>r p. plotDataInsert K p dN r) [r1, r2, r3, r4, r5] pl) dN) = 2"
    using five_inserts_indices [of pl dN K r1 r2 r3 r4 r5] by blast
  from g show "head_N (data (fold (\<lambda>r p. plotDataInsert K p dN r) [r1, r2, r3, r4, r5] pl) dN) = 2"
    by blast
  from g show "tail_N (data (fold (\<lambda>r p. plotDataInsert K p dN r) [r1, r2, r3, r4, r5] pl) dN) = 1"
    by blast
  from g show "id_N (data (fold (\<lambda>r p. plotDataInsert K p dN r) [r1, r2, r3, r4, r5] pl) dN) = 2"
    by blast
next
  assume h: "raw (data (insert_prologue K pl dN) dN)
         (drop_bit (chunk_SHIFT (data pl dN)) (tail_N (data pl dN))) = Some a
        \<and> ring_next pl dN (tail_N (data pl dN)) = head_N (data pl dN)"
  then show "head_N (data (plotDataInsert K pl dN row) dN) = ring_next pl dN (head_N (data pl dN))"
    and "id_N (data (plotDataInsert K pl dN row) dN) = id_N (data pl dN) + 1"
    using plotDataInsert_success_ring(2) [of K pl dN a row] by blast+
  from h show "tail_N (data (plotDataInsert K pl dN row) dN) = ring_next pl dN (tail_N (data pl dN))"
    using plotDataInsert_success_ring(1) [of K pl dN a row] by blast
qed

text \<open>
  Witness for C1: the cursors of scenario A from the general statement, and the fourth
  insert, where the advanced tail meets the head for the first time.
\<close>

theorem ring_overflow_evicts_witness:
  "head_N (data ring_5 0) = 2 \<and> tail_N (data ring_5 0) = 1 \<and> id_N (data ring_5 0) = 2
   \<and> ring_next ring_3 0 (tail_N (data ring_3 0)) = head_N (data ring_3 0)
   \<and> head_N (data ring_4 0) = 1 \<and> id_N (data ring_4 0) = 1 \<and> tail_N (data ring_4 0) = 0"
proof -
  have h1: "lz4_compress ring_alloc = 0 \<and> length_N (data ring_alloc 0) = 4
        \<and> head_N (data ring_alloc 0) = 0 \<and> tail_N (data ring_alloc 0) = 0
        \<and> id_N (data ring_alloc 0) = 0
        \<and> (\<forall>t. 0 \<le> t \<and> t < 4 \<longrightarrow>
              raw (data ring_alloc 0) (drop_bit (chunk_SHIFT (data ring_alloc 0)) t) \<noteq> None)"
  proof -
    have "raw (data ring_alloc 0) (drop_bit (chunk_SHIFT (data ring_alloc 0)) t) \<noteq> None"
      if "0 \<le> t" "t < 4" for t :: int
    proof -
      from that have "t = 0 \<or> t = 1 \<or> t = 2 \<or> t = 3" by auto
      then show ?thesis by (auto simp: ring_alloc_facts)
    qed
    then show ?thesis by (simp add: ring_alloc_facts)
  qed
  have h2: "raw (data (insert_prologue K_small ring_3 0) 0)
         (drop_bit (chunk_SHIFT (data ring_3 0)) (tail_N (data ring_3 0))) = Some (Suc 0)
        \<and> ring_next ring_3 0 (tail_N (data ring_3 0)) = head_N (data ring_3 0)"
    by (simp add: insert_prologue_plain ring_3_facts ring_next_def)
  from ring_overflow_evicts [of ring_alloc 0 K_small "[Fin 1]" "[Fin 2]" "[Fin 3]" "[Fin 4]" "[Fin 5]"] h1
  have a: "head_N (data ring_5 0) = 2 \<and> tail_N (data ring_5 0) = 1 \<and> id_N (data ring_5 0) = 2"
    unfolding ring_5_is_fold by blast
  from ring_overflow_evicts [of ring_3 0 K_small _ _ _ _ _ "Suc 0" "[Fin 4]"] h2
  have "head_N (data ring_4 0) = ring_next ring_3 0 (head_N (data ring_3 0))
        \<and> id_N (data ring_4 0) = id_N (data ring_3 0) + 1
        \<and> tail_N (data ring_4 0) = ring_next ring_3 0 (tail_N (data ring_3 0))"
    unfolding ring_4_def by blast
  then have b: "head_N (data ring_4 0) = 1 \<and> id_N (data ring_4 0) = 1 \<and> tail_N (data ring_4 0) = 0"
    by (simp add: ring_next_def ring_3_facts)
  from a b h2 show ?thesis by blast
qed

section \<open>Time unwrap\<close>




lemma fless_cases: "fless a (Fin p) \<Longrightarrow> a = MInf \<or> (\<exists>q. a = Fin q \<and> q < p)"
  by (cases a) simp_all







lemma unwrap_example:
  "time_unwrap_block time_unwrap_fresh [Fin 0, Fin (1/2), Fin 1, Fin (1/5), Fin (7/10), Fin (6/5)]
     = ([Fin 0, Fin (1/2), Fin 1, Fin (3/2), Fin 2, Fin (5/2)], (Fin (13/10), Fin (6/5), Fin (7/10)))"
  by (simp add: time_unwrap_step_def time_unwrap_fresh_def FP_NAN_def Let_def fval_ev)


lemma uw_alloc_facts:
  "column_N (data uw_alloc 0) = 1"
  "length_N (data uw_alloc 0) = 8"
  "head_N (data uw_alloc 0) = 0"
  "tail_N (data uw_alloc 0) = 0"
  "id_N (data uw_alloc 0) = 0"
  "sub_N (data uw_alloc 0) = 0"
  "chunk_SHIFT (data uw_alloc 0) = 1"
  "chunk_MASK (data uw_alloc 0) = 1"
  "lz4_compress uw_alloc = 0"
  "raw (data uw_alloc 0) 0 = Some 0"
  "raw (data uw_alloc 0) 1 = Some (Suc 0)"
  "raw (data uw_alloc 0) 2 = Some (Suc (Suc 0))"
  "raw (data uw_alloc 0) 3 = Some (Suc (Suc (Suc 0)))"
  by (simp_all add: uw_alloc_def plotDataAlloc_def plotDataChunkAlloc_def K_small_def
      pl_empty_def plotAlloc_def data_upd_def Let_def malloc_def ERROR_def numeral_eq_Suc)

lemma uw_1_facts:
  "column_N (data uw_1 0) = 1"
  "length_N (data uw_1 0) = 8"
  "head_N (data uw_1 0) = 0"
  "tail_N (data uw_1 0) = 1"
  "id_N (data uw_1 0) = 0"
  "sub_N (data uw_1 0) = 0"
  "chunk_SHIFT (data uw_1 0) = 1"
  "chunk_MASK (data uw_1 0) = 1"
  "lz4_compress uw_1 = 0"
  "raw (data uw_1 0) 0 = Some 0"
  "raw (data uw_1 0) 1 = Some (Suc 0)"
  "raw (data uw_1 0) 2 = Some (Suc (Suc 0))"
  "raw (data uw_1 0) 3 = Some (Suc (Suc (Suc 0)))"
  "mem uw_1 0 0 = Fin 0"
  by (simp_all add: uw_1_def plotDataInsert_plain [where a = "0"] uw_alloc_facts
      ring_next_def K_small_def)

lemma uw_2_facts:
  "column_N (data uw_2 0) = 1"
  "length_N (data uw_2 0) = 8"
  "head_N (data uw_2 0) = 0"
  "tail_N (data uw_2 0) = 2"
  "id_N (data uw_2 0) = 0"
  "sub_N (data uw_2 0) = 0"
  "chunk_SHIFT (data uw_2 0) = 1"
  "chunk_MASK (data uw_2 0) = 1"
  "lz4_compress uw_2 = 0"
  "raw (data uw_2 0) 0 = Some 0"
  "raw (data uw_2 0) 1 = Some (Suc 0)"
  "raw (data uw_2 0) 2 = Some (Suc (Suc 0))"
  "raw (data uw_2 0) 3 = Some (Suc (Suc (Suc 0)))"
  "mem uw_2 0 0 = Fin 0"
  "mem uw_2 0 4 = Fin (1/2)"
  by (simp_all add: uw_2_def plotDataInsert_plain [where a = "0"] uw_1_facts
      ring_next_def K_small_def)

lemma uw_3_facts:
  "column_N (data uw_3 0) = 1"
  "length_N (data uw_3 0) = 8"
  "head_N (data uw_3 0) = 0"
  "tail_N (data uw_3 0) = 3"
  "id_N (data uw_3 0) = 0"
  "sub_N (data uw_3 0) = 0"
  "chunk_SHIFT (data uw_3 0) = 1"
  "chunk_MASK (data uw_3 0) = 1"
  "lz4_compress uw_3 = 0"
  "raw (data uw_3 0) 0 = Some 0"
  "raw (data uw_3 0) 1 = Some (Suc 0)"
  "raw (data uw_3 0) 2 = Some (Suc (Suc 0))"
  "raw (data uw_3 0) 3 = Some (Suc (Suc (Suc 0)))"
  "mem uw_3 0 0 = Fin 0"
  "mem uw_3 0 4 = Fin (1/2)"
  "mem uw_3 (Suc 0) 0 = Fin 1"
  by (simp_all add: uw_3_def plotDataInsert_plain [where a = "Suc 0"] uw_2_facts
      ring_next_def K_small_def)

lemma uw_4_facts:
  "column_N (data uw_4 0) = 1"
  "length_N (data uw_4 0) = 8"
  "head_N (data uw_4 0) = 0"
  "tail_N (data uw_4 0) = 4"
  "id_N (data uw_4 0) = 0"
  "sub_N (data uw_4 0) = 0"
  "chunk_SHIFT (data uw_4 0) = 1"
  "chunk_MASK (data uw_4 0) = 1"
  "lz4_compress uw_4 = 0"
  "raw (data uw_4 0) 0 = Some 0"
  "raw (data uw_4 0) 1 = Some (Suc 0)"
  "raw (data uw_4 0) 2 = Some (Suc (Suc 0))"
  "raw (data uw_4 0) 3 = Some (Suc (Suc (Suc 0)))"
  "mem uw_4 0 0 = Fin 0"
  "mem uw_4 0 4 = Fin (1/2)"
  "mem uw_4 (Suc 0) 0 = Fin 1"
  "mem uw_4 (Suc 0) 4 = Fin (1/5)"
  by (simp_all add: uw_4_def plotDataInsert_plain [where a = "Suc 0"] uw_3_facts
      ring_next_def K_small_def)

lemma uw_5_facts:
  "column_N (data uw_5 0) = 1"
  "length_N (data uw_5 0) = 8"
  "head_N (data uw_5 0) = 0"
  "tail_N (data uw_5 0) = 5"
  "id_N (data uw_5 0) = 0"
  "sub_N (data uw_5 0) = 0"
  "chunk_SHIFT (data uw_5 0) = 1"
  "chunk_MASK (data uw_5 0) = 1"
  "lz4_compress uw_5 = 0"
  "raw (data uw_5 0) 0 = Some 0"
  "raw (data uw_5 0) 1 = Some (Suc 0)"
  "raw (data uw_5 0) 2 = Some (Suc (Suc 0))"
  "raw (data uw_5 0) 3 = Some (Suc (Suc (Suc 0)))"
  "mem uw_5 0 0 = Fin 0"
  "mem uw_5 0 4 = Fin (1/2)"
  "mem uw_5 (Suc 0) 0 = Fin 1"
  "mem uw_5 (Suc 0) 4 = Fin (1/5)"
  "mem uw_5 (Suc (Suc 0)) 0 = Fin (7/10)"
  by (simp_all add: uw_5_def plotDataInsert_plain [where a = "Suc (Suc 0)"] uw_4_facts
      ring_next_def K_small_def)

lemma uw_6_facts:
  "column_N (data uw_6 0) = 1"
  "length_N (data uw_6 0) = 8"
  "head_N (data uw_6 0) = 0"
  "tail_N (data uw_6 0) = 6"
  "id_N (data uw_6 0) = 0"
  "sub_N (data uw_6 0) = 0"
  "chunk_SHIFT (data uw_6 0) = 1"
  "chunk_MASK (data uw_6 0) = 1"
  "lz4_compress uw_6 = 0"
  "raw (data uw_6 0) 0 = Some 0"
  "raw (data uw_6 0) 1 = Some (Suc 0)"
  "raw (data uw_6 0) 2 = Some (Suc (Suc 0))"
  "raw (data uw_6 0) 3 = Some (Suc (Suc (Suc 0)))"
  "mem uw_6 0 0 = Fin 0"
  "mem uw_6 0 4 = Fin (1/2)"
  "mem uw_6 (Suc 0) 0 = Fin 1"
  "mem uw_6 (Suc 0) 4 = Fin (1/5)"
  "mem uw_6 (Suc (Suc 0)) 0 = Fin (7/10)"
  "mem uw_6 (Suc (Suc 0)) 4 = Fin (6/5)"
  by (simp_all add: uw_6_def plotDataInsert_plain [where a = "Suc (Suc 0)"] uw_5_facts
      ring_next_def K_small_def)
lemma uw_slot_facts:
  "column_N (data uw_slot 0) = 1" "length_N (data uw_slot 0) = 8"
  "head_N (data uw_slot 0) = 0" "tail_N (data uw_slot 0) = 6"
  "id_N (data uw_slot 0) = 0" "sub_N (data uw_slot 0) = 0"
  "chunk_SHIFT (data uw_slot 0) = 1" "chunk_MASK (data uw_slot 0) = 1"
  "lz4_compress uw_slot = 0"
  "raw (data uw_slot 0) 0 = Some 0" "raw (data uw_slot 0) 1 = Some (Suc 0)"
  "raw (data uw_slot 0) 2 = Some (Suc (Suc 0))" "raw (data uw_slot 0) 3 = Some (Suc (Suc (Suc 0)))"
  "mem uw_slot = mem uw_6"
  "sub (data uw_slot 0) 0 = SUBTRACT_TIME_UNWRAP 0 (Fin 0) (Fin 0) (Fin 0)"
  by (simp_all add: uw_slot_def data_upd_def uw_6_facts)

lemma uw_in_column:
  "column_values K_small uw_slot 0 0 = [Fin 0, Fin (1/2), Fin 1, Fin (1/5), Fin (7/10), Fin (6/5)]"
  by (simp add: column_values_def uw_slot_facts uw_6_facts plotDataGet_def Let_def numeral_eq_Suc
      K_small_def)

lemmas unwrap_ev = plotDataSubtract_def subtract_TIME_UNWRAP_def plotDataWrite_def
  time_unwrap_step_def time_unwrap_fresh_def FP_NAN_def Let_def K_small_def numeral_eq_Suc
  data_upd_def fval_ev

lemma uw_subtract:
  "plotDataSubtract 8 K_small other uw_slot 0 0 = Some uw_out"
  by (simp add: uw_out_def unwrap_ev uw_slot_facts uw_6_facts)

lemma uw_out_facts:
  "column_N (data uw_out 0) = 1" "length_N (data uw_out 0) = 8"
  "head_N (data uw_out 0) = 0" "tail_N (data uw_out 0) = 6"
  "chunk_SHIFT (data uw_out 0) = 1" "chunk_MASK (data uw_out 0) = 1"
  "lz4_compress uw_out = 0"
  "raw (data uw_out 0) 0 = Some 0" "raw (data uw_out 0) 1 = Some (Suc 0)"
  "raw (data uw_out 0) 2 = Some (Suc (Suc 0))" "raw (data uw_out 0) 3 = Some (Suc (Suc (Suc 0)))"
  "mem uw_out 0 1 = Fin 0" "mem uw_out 0 5 = Fin (1/2)"
  "mem uw_out (Suc 0) 1 = Fin 1" "mem uw_out (Suc 0) 5 = Fin (3/2)"
  "mem uw_out (Suc (Suc 0)) 1 = Fin 2" "mem uw_out (Suc (Suc 0)) 5 = Fin (5/2)"
  "sub (data uw_out 0) 0 = SUBTRACT_TIME_UNWRAP 0 (Fin (13/10)) (Fin (6/5)) (Fin (7/10))"
  by (simp_all add: uw_out_def unwrap_ev uw_slot_facts uw_6_facts)

lemma uw_out_column:
  "column_values K_small uw_out 0 1 = [Fin 0, Fin (1/2), Fin 1, Fin (3/2), Fin 2, Fin (5/2)]"
  by (simp add: column_values_def uw_out_facts plotDataGet_def Let_def numeral_eq_Suc K_small_def)

text \<open>
  Claim C4, as stated, fails: the derived column of scenario B is not
  0, 0.5, 1, 1.2, 1.7, 2.2.
\<close>

theorem time_unwrap_scenario_counterexample:
  "map_option (\<lambda>pl. column_values K_small pl 0 1)
     (plotDataSubtract 8 K_small (\<lambda>pl dN sN rS. pl) uw_slot 0 0)
     \<noteq> Some [Fin 0, Fin (1/2), Fin 1, Fin (6/5), Fin (17/10), Fin (11/5)]"
  by (simp add: uw_subtract uw_out_column)

text \<open>
  Claim C4, amended. With the rows 0, 0.5, 1, 0.2, 0.7, 1.2 in column 0 and a
  \<open>SUBTRACT_TIME_UNWRAP\<close> slot of column 0, \<open>plotDataSubtract\<close> run for that slot from the
  head writes 0, 0.5, 1, 1.5, 2, 2.5 to the derived column, in exact arithmetic: at the
  backward step from 1 to 0.2 the offset grows by \<open>prev - x = 0.8\<close> and, since the step
  before went forward (\<open>prev2 < prev\<close>), by \<open>prev - prev2 = 0.5\<close> as well. The slot is left
  with the running state \<open>(1.3, 1.2, 0.7)\<close>.
\<close>

theorem time_unwrap_scenario:
  "column_values K_small uw_slot 0 0 = [Fin 0, Fin (1/2), Fin 1, Fin (1/5), Fin (7/10), Fin (6/5)]
   \<and> sub (data uw_slot 0) 0 = SUBTRACT_TIME_UNWRAP 0 (Fin 0) (Fin 0) (Fin 0)
   \<and> map_option (\<lambda>pl. column_values K_small pl 0 1)
         (plotDataSubtract 8 K_small other uw_slot 0 0)
       = Some [Fin 0, Fin (1/2), Fin 1, Fin (3/2), Fin 2, Fin (5/2)]
   \<and> map_option (\<lambda>pl. sub (data pl 0) 0) (plotDataSubtract 8 K_small other uw_slot 0 0)
       = Some (SUBTRACT_TIME_UNWRAP 0 (Fin (13/10)) (Fin (6/5)) (Fin (7/10)))"
  by (simp add: uw_in_column uw_slot_facts uw_subtract uw_out_column uw_out_facts)

section \<open>The range cache\<close>

lemma plotDataGet_plain:
  "lz4_compress pl = 0 \<Longrightarrow>
     plotDataGet K pl dN rN =
       (if rN \<noteq> tail_N (data pl dN) then
          (case raw (data pl dN) (drop_bit (chunk_SHIFT (data pl dN)) rN) of
             None \<Rightarrow> (None, rN, pl)
           | Some a \<Rightarrow>
               (Some (a, (column_N (data pl dN) + PLOT_SUBTRACT K)
                          * (rN AND chunk_MASK (data pl dN))),
                ring_next pl dN rN, pl))
        else (None, rN, pl))"
  by (simp add: plotDataGet_def Let_def ring_next_def split: option.splits)

lemma rchunk_upd_frame [simp]:
  "data (rchunk_upd pl xN kN f) = data pl"
  "mem (rchunk_upd pl xN kN f) = mem pl"
  "lz4_compress (rchunk_upd pl xN kN f) = lz4_compress pl"
  "rcache_wipe_data_N (rchunk_upd pl xN kN f) = rcache_wipe_data_N pl"
  "rcache_wipe_chunk_N (rchunk_upd pl xN kN f) = rcache_wipe_chunk_N pl"
  "rcache_ID (rchunk_upd pl xN kN f) = rcache_ID pl"
  by (simp_all add: rchunk_upd_def)

lemma rchunk_upd_rcache [simp]:
  "rcache (rchunk_upd pl xN kN f) =
     (rcache pl)(xN := (rcache pl xN)\<lparr>rc_chunk := (rc_chunk (rcache pl xN))
        (kN := f (rc_chunk (rcache pl xN) kN))\<rparr>)"
  by (simp add: rchunk_upd_def)

lemma wipe_once_rc_busy [simp]:
  "rc_busy (rcache (wipe_once K pl dN kN) N) = rc_busy (rcache pl N)"
  by (simp add: wipe_once_def plotDataRangeCacheWipe_def)

lemma wipe_once_rcache_ID [simp]:
  "rcache_ID (wipe_once K pl dN kN) = rcache_ID pl"
  by (simp add: wipe_once_def plotDataRangeCacheWipe_def)

lemma ring_alloc_rcache:
  "rc_busy (rcache ring_alloc N) = 0" "rcache_ID ring_alloc = 0"
  by (simp_all add: ring_alloc_def plotDataAlloc_def plotDataChunkAlloc_def K_small_def
      pl_empty_def plotAlloc_def data_upd_def Let_def malloc_def ERROR_def numeral_eq_Suc)

lemma rc_1_facts:
  "column_N (data rc_1 0) = 1" "length_N (data rc_1 0) = 4"
  "head_N (data rc_1 0) = 0" "tail_N (data rc_1 0) = 1"
  "id_N (data rc_1 0) = 0" "sub_N (data rc_1 0) = 0"
  "chunk_SHIFT (data rc_1 0) = 1" "chunk_MASK (data rc_1 0) = 1"
  "lz4_compress rc_1 = 0"
  "raw (data rc_1 0) 0 = Some 0" "raw (data rc_1 0) 1 = Some (Suc 0)"
  "mem rc_1 0 0 = Fin 100"
  "rc_busy (rcache rc_1 N) = 0" "rcache_ID rc_1 = 0"
  by (simp_all add: rc_1_def plotDataInsert_plain [where a = 0] ring_alloc_facts
      ring_alloc_rcache ring_next_def K_small_def)

lemma rc_2_facts:
  "column_N (data rc_2 0) = 1" "length_N (data rc_2 0) = 4"
  "head_N (data rc_2 0) = 0" "tail_N (data rc_2 0) = 2"
  "id_N (data rc_2 0) = 0" "sub_N (data rc_2 0) = 0"
  "chunk_SHIFT (data rc_2 0) = 1" "chunk_MASK (data rc_2 0) = 1"
  "lz4_compress rc_2 = 0"
  "raw (data rc_2 0) 0 = Some 0" "raw (data rc_2 0) 1 = Some (Suc 0)"
  "mem rc_2 0 0 = Fin 100" "mem rc_2 0 4 = Fin 1"
  "rc_busy (rcache rc_2 N) = 0" "rcache_ID rc_2 = 0"
  by (simp_all add: rc_2_def plotDataInsert_plain [where a = 0] rc_1_facts
      ring_next_def K_small_def)

lemma rc_3_facts:
  "column_N (data rc_3 0) = 1" "length_N (data rc_3 0) = 4"
  "head_N (data rc_3 0) = 0" "tail_N (data rc_3 0) = 3"
  "id_N (data rc_3 0) = 0" "sub_N (data rc_3 0) = 0"
  "chunk_SHIFT (data rc_3 0) = 1" "chunk_MASK (data rc_3 0) = 1"
  "lz4_compress rc_3 = 0"
  "raw (data rc_3 0) 0 = Some 0" "raw (data rc_3 0) 1 = Some (Suc 0)"
  "mem rc_3 0 0 = Fin 100" "mem rc_3 0 4 = Fin 1" "mem rc_3 (Suc 0) 0 = Fin 2"
  "rc_busy (rcache rc_3 N) = 0" "rcache_ID rc_3 = 0"
  by (simp_all add: rc_3_def plotDataInsert_plain [where a = "Suc 0"] rc_2_facts
      ring_next_def K_small_def)

lemmas fetch_ev = plotDataRangeCacheFetch_def plotDataRangeCacheGetNode_def plotDataChunkN_def
  plotDataGet_plain ring_next_def Let_def K_small_def numeral_eq_Suc less_fval_def
  plotDataChunkSkip_def plotDataSkip_def

lemma rc_3_fetch:
  "plotDataRangeCacheFetch 8 K_small rc_3 0 0 = Some (0, rc_f1)"
  by (simp add: rc_f1_def fetch_ev rc_3_facts)


lemma rc_f1_eq:
  "rc_f1 = snd (the (plotDataRangeCacheFetch 8 K_small rc_3 0 0))"
  by (simp add: rc_3_fetch)

lemma rc_f1_facts:
  "column_N (data rc_f1 0) = 1" "length_N (data rc_f1 0) = 4"
  "head_N (data rc_f1 0) = 0" "tail_N (data rc_f1 0) = 3"
  "id_N (data rc_f1 0) = 0" "sub_N (data rc_f1 0) = 0"
  "chunk_SHIFT (data rc_f1 0) = 1" "chunk_MASK (data rc_f1 0) = 1"
  "lz4_compress rc_f1 = 0"
  "raw (data rc_f1 0) 0 = Some 0" "raw (data rc_f1 0) 1 = Some (Suc 0)"
  "mem rc_f1 0 0 = Fin 100" "mem rc_f1 0 4 = Fin 1" "mem rc_f1 (Suc 0) 0 = Fin 2"
  "rc_busy (rcache rc_f1 0) = 1" "rc_data_N (rcache rc_f1 0) = 0"
  "rc_column_N (rcache rc_f1 0) = 0" "rc_cached (rcache rc_f1 0) = 1"
  "rc_fmin (rcache rc_f1 0) = Fin 1" "rc_fmax (rcache rc_f1 0) = Fin 100"
  "ck_computed (rc_chunk (rcache rc_f1 0) 0) = 1" "ck_finite (rc_chunk (rcache rc_f1 0) 0) = 1"
  "ck_fmin (rc_chunk (rcache rc_f1 0) 0) = Fin 1" "ck_fmax (rc_chunk (rcache rc_f1 0) 0) = Fin 100"
  "ck_computed (rc_chunk (rcache rc_f1 0) 1) = 1" "ck_finite (rc_chunk (rcache rc_f1 0) 1) = 1"
  "ck_fmin (rc_chunk (rcache rc_f1 0) 1) = Fin 2" "ck_fmax (rc_chunk (rcache rc_f1 0) 1) = Fin 2"
  "rc_busy (rcache rc_f1 1) = 0" "rc_busy (rcache rc_f1 2) = 0" "rc_busy (rcache rc_f1 3) = 0"
  "rcache_wipe_data_N rc_f1 = - 1" "rcache_wipe_chunk_N rc_f1 = - 1"
  by (simp_all add: rc_f1_def fetch_ev rc_3_facts)


lemma rc_4_facts:
  "column_N (data rc_4 0) = 1" "length_N (data rc_4 0) = 4"
  "head_N (data rc_4 0) = 1" "tail_N (data rc_4 0) = 0"
  "id_N (data rc_4 0) = 1" "sub_N (data rc_4 0) = 1"
  "chunk_SHIFT (data rc_4 0) = 1" "chunk_MASK (data rc_4 0) = 1"
  "lz4_compress rc_4 = 0"
  "raw (data rc_4 0) 0 = Some 0" "raw (data rc_4 0) 1 = Some (Suc 0)"
  "mem rc_4 0 0 = Fin 100" "mem rc_4 0 4 = Fin 1" "mem rc_4 (Suc 0) 0 = Fin 2"
  "mem rc_4 (Suc 0) 4 = Fin 3"
  "rc_busy (rcache rc_4 0) = 1" "rc_data_N (rcache rc_4 0) = 0"
  "rc_column_N (rcache rc_4 0) = 0" "rc_cached (rcache rc_4 0) = 0"
  "ck_computed (rc_chunk (rcache rc_4 0) 0) = 1" "ck_finite (rc_chunk (rcache rc_4 0) 0) = 1"
  "ck_fmin (rc_chunk (rcache rc_4 0) 0) = Fin 1" "ck_fmax (rc_chunk (rcache rc_4 0) 0) = Fin 100"
  "ck_computed (rc_chunk (rcache rc_4 0) 1) = 0"
  "rc_busy (rcache rc_4 1) = 0" "rc_busy (rcache rc_4 2) = 0" "rc_busy (rcache rc_4 3) = 0"
  by (simp_all add: rc_4_def plotDataInsert_plain [where a = "Suc 0"] rc_f1_facts
      ring_next_def K_small_def wipe_once_def plotDataRangeCacheWipe_def)

lemma rc_4_rows:
  "valid_rows K_small rc_4 0 = [(1, 1, [Fin 1]), (2, 2, [Fin 2]), (3, 3, [Fin 3])]"
  by (simp add: valid_rows_def rc_4_facts plotDataGet_def Let_def numeral_eq_Suc K_small_def)

lemma rc_4_fetch:
  "map_option (\<lambda>(xN, pl). (xN, rc_fmin (rcache pl xN), rc_fmax (rcache pl xN)))
     (plotDataRangeCacheFetch 8 K_small rc_4 0 0) = Some (0, Fin 1, Fin 100)"
  by (simp add: fetch_ev rc_4_facts)

text \<open>
  Claim C2 fails on the ring of scenario A with the rows 100, 1, 2, a fetch, and the row 3.
  The last insert evicts the row 100, so the valid rows are 1, 2, 3, but the fetch that
  follows reports the range from 1 to 100: the eviction moves \<open>head_N\<close> inside chunk 0
  without a wipe of that chunk, and the scan of the chunk of \<open>tail_N\<close> starts from the
  stored bounds of the chunk.
\<close>

theorem range_cache_stale_after_eviction:
  "plotDataRangeCacheFetch 8 K_small rc_3 0 0 = Some (0, rc_f1)
   \<and> rc_4 = plotDataInsert K_small rc_f1 0 [Fin 3]
   \<and> valid_rows K_small rc_4 0 = [(1, 1, [Fin 1]), (2, 2, [Fin 2]), (3, 3, [Fin 3])]
   \<and> map_option (\<lambda>(xN, pl). (xN, rc_fmin (rcache pl xN), rc_fmax (rcache pl xN)))
         (plotDataRangeCacheFetch 8 K_small rc_4 0 0) = Some (0, Fin 1, Fin 100)"
  by (intro conjI) (rule rc_3_fetch rc_4_def rc_4_rows rc_4_fetch)+

section \<open>Writes and the range cache\<close>

lemma rc_part_basic [simp]:
  "rc_part (ERROR pl msg) = rc_part pl"
  "rc_part (snd (malloc pl)) = rc_part pl"
  "rc_part (data_upd pl dN f) = rc_part pl"
  "rc_part (pl\<lparr>mem := m\<rparr>) = rc_part pl"
  by (simp_all add: rc_part_def ERROR_def malloc_def data_upd_def)

lemma rc_part_CacheGetNode [simp]:
  "rc_part (snd (plotDataCacheGetNode K pl dN kN)) = rc_part pl"
  by (simp add: plotDataCacheGetNode_def Let_def)

lemma rc_part_cache_store_back [simp]:
  "rc_part (cache_store_back pl dN xN a) = rc_part pl"
proof -
  obtain z pl1 where m: "malloc pl = (z, pl1)" by (cases "malloc pl")
  then have "rc_part pl1 = rc_part pl"
    using rc_part_basic(2) [of pl] by simp
  then show ?thesis
    by (simp add: cache_store_back_def Let_def m)
qed

lemma rc_part_cache_take [simp]:
  "rc_part (cache_take pl dN xN) = rc_part pl"
proof -
  obtain z pl1 where m: "malloc pl = (z, pl1)" by (cases "malloc pl")
  then have "rc_part pl1 = rc_part pl"
    using rc_part_basic(2) [of pl] by simp
  then show ?thesis
    by (simp add: cache_take_def Let_def m)
qed

lemma rc_part_cache_load [simp]:
  "rc_part (cache_load pl dN xN kN) = rc_part pl"
  by (simp add: cache_load_def Let_def split: option.splits)

lemma rc_part_CacheFetch [simp]:
  "rc_part (plotDataCacheFetch K pl dN kN) = rc_part pl"
proof -
  obtain xN pl1 where g: "plotDataCacheGetNode K pl dN kN = (xN, pl1)"
    by (cases "plotDataCacheGetNode K pl dN kN")
  then have "rc_part pl1 = rc_part pl"
    using rc_part_CacheGetNode [of K pl dN kN] by simp
  then show ?thesis
    by (simp add: plotDataCacheFetch_def g split: option.splits)
qed



lemma rc_part_memcpy_row [simp]: "rc_part (memcpy_row pl place row cN) = rc_part pl"
  by (cases place) (simp add: rc_part_def)





























section \<open>The garbage sweep\<close>

text \<open>
  Claim C7 fails for a slot whose column is read by a \<open>SUBTRACT_TIME_UNWRAP\<close> slot only:
  \<open>plotCheckColumnLinked\<close> has no branch for \<open>SUBTRACT_TIME_UNWRAP\<close> (nor for \<open>SUBTRACT_POLYFIT\<close>),
  so it reports column 2 as not linked and the sweep frees slot 0, while slot 1, kept
  because figure 0 reads its column 3, still reads column 2.
\<close>

theorem garbage_sweep_frees_unwrap_input:
  "sub (data pl_unwrap_of_scale 0) 0 = SUBTRACT_SCALE 0 (Fin 2) (Fin 0)
   \<and> sub (data pl_unwrap_of_scale 0) 1 = SUBTRACT_TIME_UNWRAP 2 (Fin 0) NaN NaN
   \<and> column_N (data pl_unwrap_of_scale 0) = 2
   \<and> plotCheckColumnLinked K_small pl_unwrap_of_scale 0 2 = 0
   \<and> map_option (\<lambda>pl. (sub (data pl 0) 0, sub (data pl 0) 1, figure pl 0))
         (plotSubtractGarbage 3 K_small pl_unwrap_of_scale 0)
       = Some (SUBTRACT_FREE, SUBTRACT_TIME_UNWRAP 2 (Fin 0) NaN NaN,
               \<lparr>fg_busy = 1, fg_hidden = 0, fg_data_N = 0, fg_column_X = 3, fg_column_Y = 1,
                fg_axis_X = 0, fg_axis_Y = 1\<rparr>)"
  by (simp add: pl_unwrap_of_scale_def pl_empty_def plotAlloc_def K_small_def numeral_eq_Suc
      plotCheckColumnLinked_def data_upd_def)

end
